theory Spec2Isabelle
  imports Main
begin

section \<open>Python values: exceptions, dictionaries, truthiness\<close>

text \<open>
  The exceptions the program raises or catches.  \<open>HttpError\<close> carries \<open>resp.status\<close> and
  \<open>content\<close>, the bytes of the response body; every other constructor is caught by
  \<open>except Exception\<close> only.  \<open>KeyError\<close> names the missing key, \<open>AttributeError\<close> the
  missing attribute and \<open>UnicodeDecodeError\<close> carries the bytes that do not decode.
\<close>

datatype exn =
    HttpError (resp_status: int) (content: string)
  | FileNotFoundError string
  | KeyError string
  | AttributeError string
  | UnicodeDecodeError string
  | Exception string

text \<open>
  \<open>bytes.decode()\<close> decodes UTF-8 strictly: it raises \<open>UnicodeDecodeError\<close> unless the
  bytes are well-formed UTF-8, that is a sequence of
  \<open>00..7F\<close>, \<open>C2..DF 80..BF\<close>, \<open>E0 A0..BF 80..BF\<close>, \<open>E1..EC 80..BF 80..BF\<close>,
  \<open>ED 80..9F 80..BF\<close>, \<open>EE..EF 80..BF 80..BF\<close>, \<open>F0 90..BF 80..BF 80..BF\<close>,
  \<open>F1..F3 80..BF 80..BF 80..BF\<close> and \<open>F4 80..8F 80..BF 80..BF\<close>.
\<close>

definition byte_in :: "nat \<Rightarrow> nat \<Rightarrow> char \<Rightarrow> bool" where
  "byte_in lo hi c = (lo \<le> of_char c \<and> of_char c \<le> hi)"

fun utf8_valid :: "string \<Rightarrow> bool" where
  "utf8_valid [] = True"
| "utf8_valid (b # bs) =
     (if byte_in 0x00 0x7F b then utf8_valid bs
      else if byte_in 0xC2 0xDF b then
        (case bs of
           c1 # rest \<Rightarrow> byte_in 0x80 0xBF c1 \<and> utf8_valid rest
         | _ \<Rightarrow> False)
      else if byte_in 0xE0 0xEF b then
        (case bs of
           c1 # c2 # rest \<Rightarrow>
             (if byte_in 0xE0 0xE0 b then byte_in 0xA0 0xBF c1
              else if byte_in 0xED 0xED b then byte_in 0x80 0x9F c1
              else byte_in 0x80 0xBF c1) \<and>
             byte_in 0x80 0xBF c2 \<and> utf8_valid rest
         | _ \<Rightarrow> False)
      else if byte_in 0xF0 0xF4 b then
        (case bs of
           c1 # c2 # c3 # rest \<Rightarrow>
             (if byte_in 0xF0 0xF0 b then byte_in 0x90 0xBF c1
              else if byte_in 0xF4 0xF4 b then byte_in 0x80 0x8F c1
              else byte_in 0x80 0xBF c1) \<and>
             byte_in 0x80 0xBF c2 \<and> byte_in 0x80 0xBF c3 \<and> utf8_valid rest
         | _ \<Rightarrow> False)
      else False)"

text \<open>
  A JSON record of the remote service (a task, a task list) is a Python \<open>dict\<close> with string
  values: an association list read with \<open>map_of\<close>.  \<open>d[k] = v\<close> replaces the value of a key
  that is present and appends the key otherwise.
\<close>

type_synonym dict = "(string \<times> string) list"

fun dict_set :: "string \<Rightarrow> string \<Rightarrow> dict \<Rightarrow> dict" where
  "dict_set k v [] = [(k, v)]"
| "dict_set k v (p # ps) = (if fst p = k then (k, v) # ps else p # dict_set k v ps)"

text \<open>\<open>d[k]\<close> raises \<open>KeyError\<close> on a missing key.\<close>

definition dict_item :: "dict \<Rightarrow> string \<Rightarrow> exn + string" where
  "dict_item d k = (case map_of d k of None \<Rightarrow> Inl (KeyError k) | Some v \<Rightarrow> Inr v)"

text \<open>Truthiness of a value that is \<open>None\<close> or a \<open>str\<close>.\<close>

fun truthy :: "string option \<Rightarrow> bool" where
  "truthy None = False"
| "truthy (Some s) = (s \<noteq> [])"

section \<open>The world outside the program\<close>

text \<open>
  \<open>google.oauth2.credentials.Credentials\<close>, with the attributes \<open>get_credentials\<close> reads.
\<close>

record creds =
  token :: string
  refresh_token :: "string option"
  expired :: bool
  valid :: bool

text \<open>
  A request built on the service object: \<open>service.tasks().update(tasklist=..., body=...)\<close> is
  \<open>Request ''tasks'' ''update'' [(''tasklist'', ...), (''body'', ...)]\<close>, the keyword arguments
  in the order the source writes them.
\<close>

datatype param = PNone | PStr string | PInt int | PBool bool | PBody dict

datatype request = Request (resource: string) (api_method: string) (kwargs: "(string \<times> param) list")

text \<open>
  Every call that leaves the program is recorded, in order: reading, removing and writing the
  token file, refreshing a credential, the interactive flow, building the service, and
  \<open>execute()\<close> of a request on a service built with some credential.
\<close>

datatype event =
    ReadToken string
  | RemoveToken
  | WriteToken string
  | RefreshToken creds
  | RunFlow
  | Build creds
  | Execute creds request

text \<open>
  The state the auth manager and the API client own: the token file (\<open>None\<close> when it does not
  exist), \<open>GoogleAuthManager._credentials\<close>, \<open>GoogleTasksAPI._service\<close> (a service is known by
  the credential it was built with) and the trace of calls made so far.
\<close>

record world =
  token_file :: "string option"
  credentials :: "creds option"
  service :: "creds option"
  trace :: "event list"

text \<open>
  The libraries and the remote service are not part of the repository: they are parameters.
  What the network, the user or the service answers may depend on everything that happened
  before, so these answers are functions of the trace.
\<close>

record env =
  from_authorized_user_file :: "string \<Rightarrow> exn + creds"
  to_json :: "creds \<Rightarrow> string"
  refresh :: "event list \<Rightarrow> creds \<Rightarrow> exn + creds"
  run_local_server :: "event list \<Rightarrow> exn + creds"
  execute :: "event list \<Rightarrow> creds \<Rightarrow> request \<Rightarrow> exn + dict"
  execute_list :: "event list \<Rightarrow> creds \<Rightarrow> request \<Rightarrow> exn + dict list option"

definition record_event :: "event \<Rightarrow> world \<Rightarrow> world" where
  "record_event ev w = w\<lparr>trace := trace w @ [ev]\<rparr>"

section \<open>auth/google\_auth.py: GoogleAuthManager\<close>

text \<open>\<open>if os.path.exists(self.token_file): os.remove(self.token_file)\<close>\<close>

definition remove_token_file :: "world \<Rightarrow> world" where
  "remove_token_file w =
     (case token_file w of
        None \<Rightarrow> w
      | Some _ \<Rightarrow> record_event RemoveToken (w\<lparr>token_file := None\<rparr>))"

text \<open>
  Lines 35-41 of \<open>get_credentials\<close>: the token file is parsed when it exists; a file that
  does not parse is removed and \<open>creds\<close> stays \<open>None\<close>.
\<close>

definition load_token :: "env \<Rightarrow> world \<Rightarrow> creds option \<times> world" where
  "load_token env w =
     (case token_file w of
        None \<Rightarrow> (None, w)
      | Some s \<Rightarrow>
          (case from_authorized_user_file env s of
             Inr c \<Rightarrow> (Some c, record_event (ReadToken s) w)
           | Inl _ \<Rightarrow>
               (None, record_event RemoveToken
                        ((record_event (ReadToken s) w)\<lparr>token_file := None\<rparr>))))"

text \<open>
  Lines 45-52: a loaded credential that is not valid is refreshed when it is expired and has
  a refresh token; a failed refresh removes the token file and drops the credential.  A
  credential that is neither valid nor refreshable is kept as it is.
\<close>

definition refresh_loaded :: "env \<Rightarrow> creds \<Rightarrow> world \<Rightarrow> creds option \<times> world" where
  "refresh_loaded env c w =
     (if expired c \<and> truthy (refresh_token c) then
        (case refresh env (trace w) c of
           Inr c' \<Rightarrow> (Some c', record_event (RefreshToken c) w)
         | Inl _ \<Rightarrow> (None, remove_token_file (record_event (RefreshToken c) w)))
      else (Some c, w))"

text \<open>
  Lines 54-67: the interactive flow.  A missing client configuration is re-raised as
  \<open>FileNotFoundError\<close> with the program's own message, any other failure propagates, and a
  fresh credential is written to the token file.
\<close>

definition credentials_missing :: string where
  "credentials_missing =
     ''Error: config/credentials.json not found. Please download it from Google Cloud Console.''"

definition run_flow :: "env \<Rightarrow> world \<Rightarrow> (exn + creds) \<times> world" where
  "run_flow env w =
     (case run_local_server env (trace w) of
        Inl (FileNotFoundError _) \<Rightarrow> (Inl (FileNotFoundError credentials_missing), record_event RunFlow w)
      | Inl e \<Rightarrow> (Inl e, record_event RunFlow w)
      | Inr c \<Rightarrow>
          (Inr c, record_event (WriteToken (to_json env c))
                    ((record_event RunFlow w)\<lparr>token_file := Some (to_json env c)\<rparr>)))"

text \<open>
  \<open>get_credentials\<close> after the cache check (lines 32-70): load, refresh or run the flow, then
  cache what was obtained.  An exception of the flow leaves \<open>_credentials\<close> as it was.
\<close>

definition acquire :: "env \<Rightarrow> world \<Rightarrow> (exn + creds) \<times> world" where
  "acquire env w =
     (case load_token env w of
        (loaded, w1) \<Rightarrow>
          (case (case loaded of
                   None \<Rightarrow> (None, w1)
                 | Some c \<Rightarrow> if valid c then (Some c, w1) else refresh_loaded env c w1) of
             (Some c, w2) \<Rightarrow> (Inr c, w2\<lparr>credentials := Some c\<rparr>)
           | (None, w2) \<Rightarrow>
               (case run_flow env w2 of
                  (Inl e, w3) \<Rightarrow> (Inl e, w3)
                | (Inr c, w3) \<Rightarrow> (Inr c, w3\<lparr>credentials := Some c\<rparr>))))"

definition get_credentials :: "env \<Rightarrow> world \<Rightarrow> (exn + creds) \<times> world" where
  "get_credentials env w =
     (case credentials w of
        Some c0 \<Rightarrow> if valid c0 then (Inr c0, w) else acquire env w
      | None \<Rightarrow> acquire env w)"

text \<open>The condition of line 29: \<open>self._credentials and self._credentials.valid\<close>.\<close>

definition cached_valid :: "world \<Rightarrow> bool" where
  "cached_valid w = (case credentials w of None \<Rightarrow> False | Some c \<Rightarrow> valid c)"

definition refresh_credentials :: "env \<Rightarrow> world \<Rightarrow> (exn + creds) \<times> world" where
  "refresh_credentials env w = get_credentials env ((remove_token_file w)\<lparr>credentials := None\<rparr>)"

text \<open>
  \<open>build_service\<close>: with \<open>force_refresh\<close> the credentials are re-acquired first (and the result
  dropped), then \<open>get_credentials\<close> is called again and the service is built with its result.
\<close>

definition build_with_credentials :: "env \<Rightarrow> world \<Rightarrow> (exn + creds) \<times> world" where
  "build_with_credentials env w =
     (case get_credentials env w of
        (Inl e, w1) \<Rightarrow> (Inl e, w1)
      | (Inr c, w1) \<Rightarrow> (Inr c, record_event (Build c) w1))"

definition build_service :: "env \<Rightarrow> bool \<Rightarrow> world \<Rightarrow> (exn + creds) \<times> world" where
  "build_service env force_refresh w =
     (if force_refresh then
        (case refresh_credentials env w of
           (Inl e, w1) \<Rightarrow> (Inl e, w1)
         | (Inr _, w1) \<Rightarrow> build_with_credentials env w1)
      else build_with_credentials env w)"

section \<open>api/google\_tasks.py: GoogleTasksAPI\<close>

definition MAX_RESULTS :: int where
  "MAX_RESULTS = 10"

text \<open>The \<open>service\<close> property builds the service on first use and keeps it.\<close>

definition service_property :: "env \<Rightarrow> world \<Rightarrow> (exn + creds) \<times> world" where
  "service_property env w =
     (case service w of
        Some svc \<Rightarrow> (Inr svc, w)
      | None \<Rightarrow>
          (case build_service env False w of
             (Inl e, w1) \<Rightarrow> (Inl e, w1)
           | (Inr svc, w1) \<Rightarrow> (Inr svc, w1\<lparr>service := Some svc\<rparr>)))"

definition refresh_service :: "env \<Rightarrow> world \<Rightarrow> (exn + creds) \<times> world" where
  "refresh_service env w =
     (case build_service env True w of
        (Inl e, w1) \<Rightarrow> (Inl e, w1)
      | (Inr svc, w1) \<Rightarrow> (Inr svc, w1\<lparr>service := Some svc\<rparr>))"

text \<open>
  \<open>self.service.\<dots>.execute()\<close>: the service is obtained first, then the request is sent
  and recorded.  \<open>run_list_request\<close> is the same for the two \<open>list\<close> methods, whose answer
  may carry an \<open>items\<close> array.
\<close>

definition run_request :: "env \<Rightarrow> request \<Rightarrow> world \<Rightarrow> (exn + dict) \<times> world" where
  "run_request env req w =
     (case service_property env w of
        (Inl e, w1) \<Rightarrow> (Inl e, w1)
      | (Inr svc, w1) \<Rightarrow> (execute env (trace w1) svc req, record_event (Execute svc req) w1))"

definition run_list_request :: "env \<Rightarrow> request \<Rightarrow> world \<Rightarrow> (exn + dict list) \<times> world" where
  "run_list_request env req w =
     (case service_property env w of
        (Inl e, w1) \<Rightarrow> (Inl e, w1)
      | (Inr svc, w1) \<Rightarrow>
          (case execute_list env (trace w1) svc req of
             Inl e \<Rightarrow> (Inl e, record_event (Execute svc req) w1)
           | Inr None \<Rightarrow> (Inr [], record_event (Execute svc req) w1)
           | Inr (Some items) \<Rightarrow> (Inr items, record_event (Execute svc req) w1)))"

text \<open>An identifier handed to the library: a \<open>str\<close>, or \<open>None\<close>.\<close>

fun py_str :: "string option \<Rightarrow> param" where
  "py_str None = PNone"
| "py_str (Some s) = PStr s"

definition get_task_lists :: "env \<Rightarrow> world \<Rightarrow> (exn + dict list) \<times> world" where
  "get_task_lists env =
     run_list_request env (Request ''tasklists'' ''list'' [(''maxResults'', PInt MAX_RESULTS)])"

definition get_tasks :: "env \<Rightarrow> string option \<Rightarrow> world \<Rightarrow> (exn + dict list) \<times> world" where
  "get_tasks env tasklist_id =
     run_list_request env
       (Request ''tasks'' ''list''
          [(''tasklist'', py_str tasklist_id), (''showCompleted'', PBool True),
           (''showHidden'', PBool True)])"

definition update_task ::
  "env \<Rightarrow> string option \<Rightarrow> string option \<Rightarrow> dict \<Rightarrow> world \<Rightarrow> (exn + dict) \<times> world" where
  "update_task env tasklist_id task_id task_data =
     run_request env
       (Request ''tasks'' ''update''
          [(''tasklist'', py_str tasklist_id), (''task'', py_str task_id), (''body'', PBody task_data)])"

definition get_task :: "env \<Rightarrow> string option \<Rightarrow> string option \<Rightarrow> world \<Rightarrow> (exn + dict) \<times> world" where
  "get_task env tasklist_id task_id =
     run_request env
       (Request ''tasks'' ''get'' [(''tasklist'', py_str tasklist_id), (''task'', py_str task_id)])"

text \<open>The two \<open>delete\<close> methods drop the answer and return \<open>None\<close>.\<close>

definition delete_task :: "env \<Rightarrow> string option \<Rightarrow> string option \<Rightarrow> world \<Rightarrow> (exn + unit) \<times> world" where
  "delete_task env tasklist_id task_id w =
     (case run_request env
             (Request ''tasks'' ''delete''
                [(''tasklist'', py_str tasklist_id), (''task'', py_str task_id)]) w of
        (Inl e, w1) \<Rightarrow> (Inl e, w1)
      | (Inr _, w1) \<Rightarrow> (Inr (), w1))"

definition create_task :: "env \<Rightarrow> string option \<Rightarrow> dict \<Rightarrow> world \<Rightarrow> (exn + dict) \<times> world" where
  "create_task env tasklist_id task_data =
     run_request env
       (Request ''tasks'' ''insert'' [(''tasklist'', py_str tasklist_id), (''body'', PBody task_data)])"

definition move_task ::
  "env \<Rightarrow> string option \<Rightarrow> string option \<Rightarrow> string option \<Rightarrow> world \<Rightarrow> (exn + dict) \<times> world" where
  "move_task env tasklist_id task_id previous_id =
     (if truthy previous_id then
        run_request env
          (Request ''tasks'' ''move''
             [(''tasklist'', py_str tasklist_id), (''task'', py_str task_id),
              (''previous'', py_str previous_id)])
      else
        run_request env
          (Request ''tasks'' ''move'' [(''tasklist'', py_str tasklist_id), (''task'', py_str task_id)]))"

definition delete_tasklist :: "env \<Rightarrow> string option \<Rightarrow> world \<Rightarrow> (exn + unit) \<times> world" where
  "delete_tasklist env tasklist_id w =
     (case run_request env
             (Request ''tasklists'' ''delete'' [(''tasklist'', py_str tasklist_id)]) w of
        (Inl e, w1) \<Rightarrow> (Inl e, w1)
      | (Inr _, w1) \<Rightarrow> (Inr (), w1))"

definition create_tasklist :: "env \<Rightarrow> string \<Rightarrow> world \<Rightarrow> (exn + dict) \<times> world" where
  "create_tasklist env title =
     run_request env (Request ''tasklists'' ''insert'' [(''body'', PBody [(''title'', title)])])"

definition update_tasklist :: "env \<Rightarrow> string \<Rightarrow> string \<Rightarrow> world \<Rightarrow> (exn + dict) \<times> world" where
  "update_tasklist env tasklist_id title =
     run_request env
       (Request ''tasklists'' ''update''
          [(''tasklist'', PStr tasklist_id), (''body'', PBody [(''title'', title), (''id'', tasklist_id)])])"

text \<open>
  \<open>handle_api_error(self, operation, error, retry_callback=None)\<close>.  Of \<open>self\<close> the
  handler uses \<open>refresh_service\<close> only, which is passed as \<open>self_refresh_service\<close>;
  \<open>operation\<close> is never read.  The result is \<open>Inl\<close> when the handler raises, \<open>Inr (Some v)\<close>
  when it returns the retry's value and \<open>Inr None\<close> when it falls off its end.  Both
  \<open>refresh_service\<close> and \<open>retry_callback\<close> run inside the \<open>try\<close>, whose \<open>except Exception\<close>
  raises the original error.
\<close>

definition handle_api_error ::
  "('s \<Rightarrow> (exn + 'r) \<times> 's) \<Rightarrow> 'o \<Rightarrow> exn \<Rightarrow> ('s \<Rightarrow> (exn + 'a) \<times> 's) option \<Rightarrow> 's
     \<Rightarrow> (exn + 'a option) \<times> 's" where
  "handle_api_error self_refresh_service operation error retry_callback s =
     (case error of
        HttpError st _ \<Rightarrow>
          if st = 401 \<or> st = 403 then
            (case self_refresh_service s of
               (Inl refresh_error, s1) \<Rightarrow> (Inl error, s1)
             | (Inr _, s1) \<Rightarrow>
                 (case retry_callback of
                    None \<Rightarrow> (Inr None, s1)
                  | Some callback \<Rightarrow>
                      (case callback s1 of
                         (Inl refresh_error, s2) \<Rightarrow> (Inl error, s2)
                       | (Inr v, s2) \<Rightarrow> (Inr (Some v), s2))))
          else (Inl error, s)
      | _ \<Rightarrow> (Inl error, s))"

section \<open>ui/components.py: the tree and the application state\<close>

text \<open>
  A message shown to the user: a literal text, or an f-string that ends with an exception.
\<close>

datatype message = Msg string | MsgExn string exn

text \<open>
  An item of the tree widget: a \<open>TaskTreeItem\<close> (used for task lists and for tasks alike, with
  its text, \<open>task_id\<close> and \<open>status\<close>) or a plain \<open>QTreeWidgetItem\<close> that only shows a text.
  Icons, fonts and colours are left out.
\<close>

datatype item =
    TaskTreeItem (item_text: string) (task_id: "string option") (status: "string option")
  | QTreeWidgetItem (label: message)

text \<open>
  The tree has two levels: the top-level items, each with its children.  The program holds
  items by reference; here an item is named by its position.
\<close>

type_synonym tree = "(item \<times> item list) list"

datatype ref = TopLevel nat | Child nat nat

record app =
  api :: world
  tree :: tree
  status_bar :: message
  error_messages :: "(string \<times> message) list"
  quit :: bool

text \<open>The parent and the siblings of the child at position \<open>j\<close> under top-level item \<open>i\<close>.\<close>

definition child_at :: "tree \<Rightarrow> nat \<Rightarrow> nat \<Rightarrow> (item \<times> item list) option" where
  "child_at t i j =
     (if i < length t \<and> j < length (snd (t ! i)) then Some (t ! i) else None)"

definition set_child :: "tree \<Rightarrow> nat \<Rightarrow> nat \<Rightarrow> item \<Rightarrow> tree" where
  "set_child t i j it = t[i := (fst (t ! i), (snd (t ! i))[j := it])]"

definition remove_nth :: "nat \<Rightarrow> 'a list \<Rightarrow> 'a list" where
  "remove_nth i xs = take i xs @ drop (Suc i) xs"

definition remove_child :: "tree \<Rightarrow> nat \<Rightarrow> nat \<Rightarrow> tree" where
  "remove_child t i j = t[i := (fst (t ! i), remove_nth j (snd (t ! i)))]"

text \<open>
  The prefix shown before a completed task, as the bytes of the source file's literal, and
  \<open>text.replace(prefix, '')\<close>: every occurrence is removed, left to right.
\<close>

definition check_mark :: string where
  "check_mark = [CHR 0xC3, CHR 0xA2, CHR 0xC5, CHR 0x93, CHR 0xE2, CHR 0x80, CHR 0x9C, CHR 0x20]"

function py_remove :: "string \<Rightarrow> string \<Rightarrow> string" where
  "py_remove old s =
     (if old = [] \<or> s = [] then s
      else if take (length old) s = old then py_remove old (drop (length old) s)
      else hd s # py_remove old (tl s))"
  by pat_completeness auto
termination
  by (relation "measure (\<lambda>(old, s). length s)") auto

section \<open>ui/components.py: loading\<close>

text \<open>\<open>_style_task_item\<close>: a completed task gets the prefix.\<close>

definition style_task_item :: "item \<Rightarrow> string \<Rightarrow> item" where
  "style_task_item task_item st =
     (case task_item of
        TaskTreeItem txt tid s \<Rightarrow>
          if st = ''completed'' then TaskTreeItem (check_mark @ txt) tid s else task_item
      | QTreeWidgetItem m \<Rightarrow> task_item)"

text \<open>
  \<open>_create_task_items\<close>: the children created so far are \<open>kids\<close>.  A task without
  \<open>title\<close> or \<open>id\<close> raises \<open>KeyError\<close> and leaves the children created before it.
\<close>

fun create_items_loop :: "dict list \<Rightarrow> item list \<Rightarrow> exn option \<times> item list" where
  "create_items_loop [] kids = (None, kids)"
| "create_items_loop (task # tasks) kids =
     (case dict_item task ''title'' of
        Inl e \<Rightarrow> (Some e, kids)
      | Inr task_title \<Rightarrow>
          (case dict_item task ''id'' of
             Inl e \<Rightarrow> (Some e, kids)
           | Inr tid \<Rightarrow>
               (let task_status =
                      (case map_of task ''status'' of None \<Rightarrow> ''needsAction'' | Some v \<Rightarrow> v)
                in create_items_loop tasks
                     (kids @ [style_task_item
                                (TaskTreeItem task_title (Some tid) (Some task_status)) task_status]))))"

text \<open>
  \<open>_create_empty_list_indicator\<close> (lines 556-561) builds the placeholder item, sets its
  colour and then its font, \<open>QFont(..., QFont.Italic)\<close>.  PyQt5's \<open>QFont\<close> has no
  attribute \<open>Italic\<close>, so that line raises \<open>AttributeError\<close>, and \<open>addChild\<close>, the line
  after it, is never reached: no child is added.
\<close>

definition create_empty_list_indicator :: "item list \<Rightarrow> exn option \<times> item list" where
  "create_empty_list_indicator kids = (Some (AttributeError ''Italic''), kids)"

definition create_task_items :: "dict list \<Rightarrow> item list \<Rightarrow> exn option \<times> item list" where
  "create_task_items tasks kids =
     (if tasks = [] then create_empty_list_indicator kids
      else create_items_loop tasks kids)"

text \<open>
  Lines 506-514 of \<open>load_tasks_data\<close>: the children a list item ends up with, from the
  outcome of its \<open>get_tasks\<close> call.  A failure, of the call or while the items are created
  (both are inside the \<open>try\<close>), adds the red error item.
\<close>

definition error_item :: "exn \<Rightarrow> item" where
  "error_item e = QTreeWidgetItem (MsgExn '' Error loading tasks: '' e)"

definition task_children :: "exn + dict list \<Rightarrow> item list" where
  "task_children r =
     (case r of
        Inl e \<Rightarrow> [error_item e]
      | Inr tasks \<Rightarrow>
          (case create_task_items tasks [] of
             (None, kids) \<Rightarrow> kids
           | (Some e, kids) \<Rightarrow> kids @ [error_item e]))"

definition fetch_error :: "exn + dict list \<Rightarrow> exn option" where
  "fetch_error r =
     (case r of Inl e \<Rightarrow> Some e | Inr tasks \<Rightarrow> fst (create_task_items tasks []))"

text \<open>
  The \<open>for task_list in task_lists\<close> loop (lines 496-514).  A task list without \<open>title\<close> or
  \<open>id\<close> raises \<open>KeyError\<close> out of the loop.
\<close>

fun load_task_lists :: "env \<Rightarrow> dict list \<Rightarrow> app \<Rightarrow> exn option \<times> app" where
  "load_task_lists env [] s = (None, s)"
| "load_task_lists env (task_list # rest) s =
     (case dict_item task_list ''title'' of
        Inl e \<Rightarrow> (Some e, s)
      | Inr title \<Rightarrow>
          (case dict_item task_list ''id'' of
             Inl e \<Rightarrow> (Some e, s)
           | Inr list_id \<Rightarrow>
               (case get_tasks env (Some list_id) (api s) of
                  (r, w) \<Rightarrow>
                    load_task_lists env rest
                      (s\<lparr>api := w,
                         tree := tree s @ [(TaskTreeItem title (Some list_id) None, task_children r)],
                         status_bar :=
                           (case fetch_error r of
                              None \<Rightarrow> status_bar s
                            | Some e \<Rightarrow>
                                MsgExn (''Error loading tasks for list '' @ title @ '': '') e)\<rparr>))))"

definition load_tasks_data :: "env \<Rightarrow> app \<Rightarrow> app" where
  "load_tasks_data env s =
     (case get_task_lists env (api s) of
        (Inl e, w) \<Rightarrow>
          s\<lparr>api := w, tree := [],
            status_bar := MsgExn ''Error loading task lists: '' e,
            error_messages :=
              error_messages s @ [(''API Error'', MsgExn ''Could not load task lists: '' e)]\<rparr>
      | (Inr task_lists, w) \<Rightarrow>
          if task_lists = [] then
            s\<lparr>api := w, tree := [(QTreeWidgetItem (Msg ''No task lists found''), [])],
              status_bar := Msg ''No task lists found''\<rparr>
          else
            (case load_task_lists env task_lists
                    (s\<lparr>api := w, tree := [], status_bar := Msg ''Loading tasks...''\<rparr>) of
               (Some e, s1) \<Rightarrow> s1\<lparr>status_bar := MsgExn ''Error: '' e\<rparr>
             | (None, s1) \<Rightarrow> s1\<lparr>status_bar := Msg ''Tasks loaded successfully''\<rparr>))"

section \<open>ui/components.py: toggling, deleting and moving\<close>

text \<open>
  Lines 577-584 (and again 616-619): the task is fetched, the \<open>status\<close> of the fetched
  record is replaced and the whole record is sent back.  The result is \<open>new_status\<close>.
\<close>

definition flip_status :: "dict \<Rightarrow> string" where
  "flip_status task =
     (if map_of task ''status'' = Some ''needsAction'' then ''completed'' else ''needsAction'')"

definition fetch_and_update ::
  "env \<Rightarrow> string option \<Rightarrow> string option \<Rightarrow> world \<Rightarrow> (exn + string) \<times> world" where
  "fetch_and_update env tasklist_id tid w =
     (case get_task env tasklist_id tid w of
        (Inl e, w1) \<Rightarrow> (Inl e, w1)
      | (Inr task, w1) \<Rightarrow>
          (case update_task env tasklist_id tid (dict_set ''status'' (flip_status task) task) w1 of
             (Inl e, w2) \<Rightarrow> (Inl e, w2)
           | (Inr _, w2) \<Rightarrow> (Inr (flip_status task), w2)))"

text \<open>Lines 587-601 (and 622-633): the item takes the new status and its text the prefix.\<close>

definition show_status :: "item \<Rightarrow> string \<Rightarrow> item" where
  "show_status it new_status =
     (case it of
        TaskTreeItem txt tid st \<Rightarrow>
          if new_status = ''completed''
          then TaskTreeItem (check_mark @ py_remove check_mark txt) tid (Some new_status)
          else TaskTreeItem (py_remove check_mark txt) tid (Some new_status)
      | QTreeWidgetItem m \<Rightarrow> it)"

text \<open>Lines 637-641: the refresh or the second attempt failed.\<close>

definition credentials_failed :: "exn \<Rightarrow> app \<Rightarrow> app" where
  "credentials_failed refresh_error s =
     s\<lparr>status_bar := MsgExn ''Couldn't refresh credentials: '' refresh_error,
       error_messages :=
         error_messages s @
           [(''Authentication Error'',
             Msg ''Your credentials need to be updated. The application will restart.'')],
       quit := True\<rparr>"

text \<open>
  \<open>toggle_task_status\<close>.  The first statement of the \<open>except HttpError\<close> branch (line 606)
  decodes the body of the error, before the status is looked at and outside any \<open>try\<close>: a
  body that is not UTF-8 raises \<open>UnicodeDecodeError\<close> there, and the method is left with
  that exception, nothing shown and nothing retried.  The result is the exception that leaves
  the method, if any, and the state.
\<close>

definition toggle_task_status :: "env \<Rightarrow> ref \<Rightarrow> app \<Rightarrow> exn option \<times> app" where
  "toggle_task_status env r s =
     (case r of
        TopLevel i \<Rightarrow> (None, s)
      | Child i j \<Rightarrow>
          (case child_at (tree s) i j of
             None \<Rightarrow> (None, s)
           | Some (parent_item, kids) \<Rightarrow>
               (case kids ! j of
                  QTreeWidgetItem m \<Rightarrow> (None, s)
                | TaskTreeItem txt tid st \<Rightarrow>
                    if tid = None then (None, s)
                    else
                      (case parent_item of
                         QTreeWidgetItem m \<Rightarrow> (None, s)
                       | TaskTreeItem ptxt tasklist_id pst \<Rightarrow>
                           (case fetch_and_update env tasklist_id tid (api s) of
                              (Inr new_status, w) \<Rightarrow>
                                (None,
                                 s\<lparr>api := w,
                                   tree := set_child (tree s) i j (show_status (kids ! j) new_status),
                                   status_bar := Msg (''Task marked as '' @ new_status)\<rparr>)
                            | (Inl (HttpError code body), w) \<Rightarrow>
                                if \<not> utf8_valid body then
                                  (Some (UnicodeDecodeError body), s\<lparr>api := w\<rparr>)
                                else if code = 403 then
                                  (case refresh_service env w of
                                     (Inl refresh_error, w1) \<Rightarrow>
                                       (None, credentials_failed refresh_error (s\<lparr>api := w1\<rparr>))
                                   | (Inr _, w1) \<Rightarrow>
                                       (case fetch_and_update env tasklist_id tid w1 of
                                          (Inl refresh_error, w2) \<Rightarrow>
                                            (None, credentials_failed refresh_error (s\<lparr>api := w2\<rparr>))
                                        | (Inr new_status, w2) \<Rightarrow>
                                            (None,
                                             s\<lparr>api := w2,
                                               tree := set_child (tree s) i j
                                                         (show_status (kids ! j) new_status),
                                               status_bar :=
                                                 Msg (''Task marked as '' @ new_status @
                                                      '' after refreshing credentials'')\<rparr>)))
                                else
                                  (None,
                                   s\<lparr>api := w,
                                     status_bar := MsgExn ''API error: '' (HttpError code body)\<rparr>)
                            | (Inl e, w) \<Rightarrow>
                                (None,
                                 s\<lparr>api := w, status_bar := MsgExn ''Error updating task: '' e\<rparr>))))))"

text \<open>
  \<open>delete_selected_task\<close>: \<open>selected\<close> is \<open>self.tree.selectedItems()\<close> and \<open>accepted\<close> is the
  user's answer to the confirmation dialog.
\<close>

definition delete_selected_task :: "env \<Rightarrow> ref list \<Rightarrow> bool \<Rightarrow> app \<Rightarrow> app" where
  "delete_selected_task env selected accepted s =
     (case selected of
        [] \<Rightarrow> s\<lparr>status_bar := Msg ''No task or task list selected''\<rparr>
      | TopLevel i # others \<Rightarrow>
          if i < length (tree s) then
            (case fst (tree s ! i) of
               QTreeWidgetItem m \<Rightarrow> s
             | TaskTreeItem txt tasklist_id st \<Rightarrow>
                 if accepted then
                   (case delete_tasklist env tasklist_id (api s) of
                      (Inr _, w) \<Rightarrow>
                        s\<lparr>api := w, tree := remove_nth i (tree s),
                          status_bar := Msg ''Task list deleted successfully''\<rparr>
                    | (Inl e, w) \<Rightarrow>
                        s\<lparr>api := w, status_bar := MsgExn ''Error deleting task list: '' e\<rparr>)
                 else s)
          else s
      | Child i j # others \<Rightarrow>
          (case child_at (tree s) i j of
             None \<Rightarrow> s
           | Some (parent_item, kids) \<Rightarrow>
               (case kids ! j of
                  QTreeWidgetItem m \<Rightarrow> s
                | TaskTreeItem txt tid st \<Rightarrow>
                    (case parent_item of
                       QTreeWidgetItem m \<Rightarrow> s
                     | TaskTreeItem ptxt tasklist_id pst \<Rightarrow>
                         if accepted then
                           (case delete_task env tasklist_id tid (api s) of
                              (Inr _, w) \<Rightarrow>
                                s\<lparr>api := w, tree := remove_child (tree s) i j,
                                  status_bar := Msg ''Task deleted successfully''\<rparr>
                            | (Inl e, w) \<Rightarrow>
                                s\<lparr>api := w, status_bar := MsgExn ''Error deleting task: '' e\<rparr>)
                         else s))))"

text \<open>
  \<open>on_task_dragged\<close> runs after the widget has moved the item: \<open>r\<close> is where the item now
  stands.  Lines 843-848 find \<open>previous_id\<close>.
\<close>

definition previous_id_of :: "item list \<Rightarrow> nat \<Rightarrow> string option" where
  "previous_id_of kids current_index =
     (if current_index > 0 then
        (case kids ! (current_index - 1) of
           TaskTreeItem txt pid st \<Rightarrow> if truthy pid then pid else None
         | QTreeWidgetItem m \<Rightarrow> None)
      else None)"

definition on_task_dragged :: "env \<Rightarrow> ref \<Rightarrow> app \<Rightarrow> app" where
  "on_task_dragged env r s =
     (case r of
        TopLevel i \<Rightarrow> s
      | Child i j \<Rightarrow>
          (case child_at (tree s) i j of
             None \<Rightarrow> s
           | Some (parent_item, kids) \<Rightarrow>
               (case kids ! j of
                  QTreeWidgetItem m \<Rightarrow> s
                | TaskTreeItem txt tid st \<Rightarrow>
                    if \<not> truthy tid then s
                    else
                      (case parent_item of
                         QTreeWidgetItem m \<Rightarrow> s
                       | TaskTreeItem ptxt tasklist_id pst \<Rightarrow>
                           (case move_task env tasklist_id tid (previous_id_of kids j) (api s) of
                              (Inr _, w) \<Rightarrow>
                                s\<lparr>api := w, status_bar := Msg ''Task position updated successfully''\<rparr>
                            | (Inl e, w) \<Rightarrow>
                                load_tasks_data env
                                  (s\<lparr>api := w,
                                     status_bar := MsgExn ''Error updating task position: '' e\<rparr>))))))"

section \<open>Sample data\<close>

text \<open>
  Concrete credentials, token files and library behaviour on which the theorems below are
  instantiated.  A token file holds the name of a credential; any other content does not
  parse.  A refresh yields \<open>renewed_creds\<close>.
\<close>

definition fresh_creds :: creds where
  "fresh_creds = \<lparr>token = ''fresh'', refresh_token = Some ''r1'', expired = False, valid = True\<rparr>"

definition stale_creds :: creds where
  "stale_creds = \<lparr>token = ''stale'', refresh_token = Some ''r1'', expired = True, valid = False\<rparr>"

definition renewed_creds :: creds where
  "renewed_creds = \<lparr>token = ''renewed'', refresh_token = Some ''r1'', expired = False, valid = True\<rparr>"

definition sample_parse :: "string \<Rightarrow> exn + creds" where
  "sample_parse s =
     (if s = ''fresh'' then Inr fresh_creds
      else if s = ''stale'' then Inr stale_creds
      else if s = ''renewed'' then Inr renewed_creds
      else Inl (Exception ''not a token file''))"

definition sample_env ::
  "(event list \<Rightarrow> exn + creds) \<Rightarrow> (event list \<Rightarrow> creds \<Rightarrow> request \<Rightarrow> exn + dict) \<Rightarrow>
   (event list \<Rightarrow> creds \<Rightarrow> request \<Rightarrow> exn + dict list option) \<Rightarrow> env" where
  "sample_env flow remote remote_list =
     \<lparr>from_authorized_user_file = sample_parse, to_json = token,
      refresh = (\<lambda>tr c. Inr renewed_creds), run_local_server = flow,
      execute = remote, execute_list = remote_list\<rparr>"

definition login_ok :: "event list \<Rightarrow> exn + creds" where
  "login_ok tr = Inr fresh_creds"

definition login_cancelled :: "event list \<Rightarrow> exn + creds" where
  "login_cancelled tr = Inl (Exception ''cancelled'')"

definition remote_ok :: "event list \<Rightarrow> creds \<Rightarrow> request \<Rightarrow> exn + dict" where
  "remote_ok tr svc req = Inr []"

definition remote_no_items :: "event list \<Rightarrow> creds \<Rightarrow> request \<Rightarrow> exn + dict list option" where
  "remote_no_items tr svc req = Inr None"

definition stored :: "string \<Rightarrow> world" where
  "stored s = \<lparr>token_file = Some s, credentials = None, service = None, trace = []\<rparr>"

section \<open>Counting calls\<close>

text \<open>
  To count how often the handler calls \<open>refresh_service\<close> and the retry callback, each is
  wrapped so that a call to it is counted beside the state it runs on.  The handler is
  polymorphic in its state, so it runs on the wrapped collaborators unchanged.
\<close>

record calls =
  refreshes :: nat
  retries :: nat

definition no_calls :: calls where
  "no_calls = \<lparr>refreshes = 0, retries = 0\<rparr>"

definition counting_refresh :: "('s \<Rightarrow> 'x \<times> 's) \<Rightarrow> 's \<times> calls \<Rightarrow> 'x \<times> 's \<times> calls" where
  "counting_refresh f =
     (\<lambda>(s, n). case f s of (x, s') \<Rightarrow> (x, s', n\<lparr>refreshes := Suc (refreshes n)\<rparr>))"

definition counting_retry :: "('s \<Rightarrow> 'x \<times> 's) \<Rightarrow> 's \<times> calls \<Rightarrow> 'x \<times> 's \<times> calls" where
  "counting_retry f =
     (\<lambda>(s, n). case f s of (x, s') \<Rightarrow> (x, s', n\<lparr>retries := Suc (retries n)\<rparr>))"

text \<open>An authorization failure: an \<open>HttpError\<close> whose status is 401 or 403.\<close>

definition auth_failure :: "exn \<Rightarrow> bool" where
  "auth_failure error =
     (case error of HttpError st body \<Rightarrow> st = 401 \<or> st = 403 | _ \<Rightarrow> False)"

definition succeeded :: "exn + 'a \<Rightarrow> bool" where
  "succeeded r = (case r of Inl e \<Rightarrow> False | Inr v \<Rightarrow> True)"

definition remote_list_denied :: "event list \<Rightarrow> creds \<Rightarrow> request \<Rightarrow> exn + dict list option" where
  "remote_list_denied tr svc req = Inl (HttpError 403 ''denied'')"

section \<open>What a load shows\<close>

text \<open>
  To state what \<open>load_tasks_data\<close> builds: a task list record the loop can read (it has a
  \<open>title\<close> and an \<open>id\<close>), the item the loop creates for it, and the outcomes of the
  \<open>get_tasks\<close> calls the loop makes, one per task list, each call running in the world the
  call before it left.
\<close>

definition well_formed :: "dict \<Rightarrow> bool" where
  "well_formed d = (map_of d ''title'' \<noteq> None \<and> map_of d ''id'' \<noteq> None)"

definition list_item_of :: "dict \<Rightarrow> item" where
  "list_item_of d =
     TaskTreeItem (case map_of d ''title'' of None \<Rightarrow> [] | Some t \<Rightarrow> t) (map_of d ''id'') None"

text \<open>
  The item a task record is shown as: its title, with the prefix when the task is completed,
  its id and its status, \<open>needsAction\<close> when the record has none.
\<close>

definition task_item_of :: "dict \<Rightarrow> item" where
  "task_item_of task =
     (let title = (case map_of task ''title'' of None \<Rightarrow> [] | Some t \<Rightarrow> t);
          st = (case map_of task ''status'' of None \<Rightarrow> ''needsAction'' | Some v \<Rightarrow> v)
      in TaskTreeItem (if st = ''completed'' then check_mark @ title else title)
           (map_of task ''id'') (Some st))"

fun fetch_outcomes :: "env \<Rightarrow> dict list \<Rightarrow> world \<Rightarrow> (exn + dict list) list" where
  "fetch_outcomes env [] w = []"
| "fetch_outcomes env (task_list # rest) w =
     (case get_tasks env (map_of task_list ''id'') w of
        (r, w') \<Rightarrow> r # fetch_outcomes env rest w')"

text \<open>
  More sample data: a client whose service is built, a window showing a given tree, and a
  service with two task lists of which the second cannot be listed.
\<close>

definition signed_in :: world where
  "signed_in = \<lparr>token_file = Some ''fresh'', credentials = Some fresh_creds,
                service = Some fresh_creds, trace = []\<rparr>"

definition window :: "tree \<Rightarrow> app" where
  "window t = \<lparr>api = signed_in, tree = t, status_bar = Msg '''', error_messages = [], quit = False\<rparr>"

definition two_lists :: "event list \<Rightarrow> creds \<Rightarrow> request \<Rightarrow> exn + dict list option" where
  "two_lists tr svc req =
     (if resource req = ''tasklists'' then
        Inr (Some [[(''id'', ''a''), (''title'', ''A'')], [(''id'', ''b''), (''title'', ''B'')]])
      else if kwargs req ! 0 = (''tasklist'', PStr ''a'') then
        Inr (Some [[(''id'', ''t1''), (''title'', ''milk''), (''status'', ''needsAction'')]])
      else Inl (Exception ''timeout''))"

text \<open>
  A service with three task lists: the first holds three tasks (one open, one completed, one
  without a status), the second cannot be listed, the third holds no task.
\<close>

definition three_lists :: "event list \<Rightarrow> creds \<Rightarrow> request \<Rightarrow> exn + dict list option" where
  "three_lists tr svc req =
     (if resource req = ''tasklists'' then
        Inr (Some [[(''id'', ''a''), (''title'', ''A'')], [(''id'', ''b''), (''title'', ''B'')],
                   [(''id'', ''c''), (''title'', ''C'')]])
      else if kwargs req ! 0 = (''tasklist'', PStr ''a'') then
        Inr (Some [[(''id'', ''t1''), (''title'', ''milk''), (''status'', ''needsAction'')],
                   [(''id'', ''t2''), (''title'', ''eggs''), (''status'', ''completed'')],
                   [(''id'', ''t3''), (''title'', ''tea'')]])
      else if kwargs req ! 0 = (''tasklist'', PStr ''b'') then Inl (Exception ''timeout'')
      else Inr (Some []))"

text \<open>A service whose every non-list request fails, and a tree with one list of two tasks.\<close>

definition remote_broken :: "event list \<Rightarrow> creds \<Rightarrow> request \<Rightarrow> exn + dict" where
  "remote_broken tr svc req = Inl (HttpError 500 ''backend error'')"

definition shopping :: tree where
  "shopping =
     [(TaskTreeItem ''A'' (Some ''a'') None,
       [TaskTreeItem ''milk'' (Some ''t1'') (Some ''needsAction''),
        TaskTreeItem ''eggs'' (Some ''t2'') (Some ''needsAction'')])]"

text \<open>The list of \<open>shopping\<close> after the second task was dragged above the first.\<close>

definition reordered :: tree where
  "reordered =
     [(TaskTreeItem ''A'' (Some ''a'') None,
       [TaskTreeItem ''eggs'' (Some ''t2'') (Some ''needsAction''),
        TaskTreeItem ''milk'' (Some ''t1'') (Some ''needsAction'')])]"

section \<open>Outcomes of a toggle\<close>

text \<open>
  A service with one task: \<open>get\<close> returns the record last sent by an \<open>update\<close>, initially
  \<open>milk\<close>; nothing else edits it.
\<close>

definition milk :: dict where
  "milk = [(''id'', ''t1''), (''title'', ''milk''), (''status'', ''needsAction''), (''notes'', ''2 l'')]"

fun stored_task :: "dict \<Rightarrow> event list \<Rightarrow> dict" where
  "stored_task d [] = d"
| "stored_task d (Execute svc req # evs) =
     (if api_method req = ''update'' then
        (case map_of (kwargs req) ''body'' of
           Some (PBody b) \<Rightarrow> stored_task b evs
         | _ \<Rightarrow> stored_task d evs)
      else stored_task d evs)"
| "stored_task d (ev # evs) = stored_task d evs"

definition remote_task :: "event list \<Rightarrow> creds \<Rightarrow> request \<Rightarrow> exn + dict" where
  "remote_task tr svc req =
     (if api_method req = ''get'' then Inr (stored_task milk tr)
      else if api_method req = ''update'' then
        (case map_of (kwargs req) ''body'' of
           Some (PBody b) \<Rightarrow> Inr b
         | _ \<Rightarrow> Inl (HttpError 400 ''no body''))
      else Inr [])"

text \<open>
  A service that answers every request with an \<open>HttpError\<close> of the given status whose body
  is the single byte \<open>0xFF\<close>, which no UTF-8 text contains.
\<close>

definition remote_garbled :: "int \<Rightarrow> event list \<Rightarrow> creds \<Rightarrow> request \<Rightarrow> exn + dict" where
  "remote_garbled code tr svc req = Inl (HttpError code [CHR 0xFF])"

section \<open>The service's page size\<close>

text \<open>
  What \<open>maxResults\<close> means is the remote service's business, not the program's: a service
  that holds the task lists \<open>account\<close> honours it when it answers a \<open>tasklists.list\<close>
  request with the first \<open>maxResults\<close> of them.  The sample service holds eleven lists.
\<close>

definition honours_max_results :: "env \<Rightarrow> dict list \<Rightarrow> bool" where
  "honours_max_results env account =
     (\<forall>tr svc n.
        execute_list env tr svc (Request ''tasklists'' ''list'' [(''maxResults'', PInt n)]) =
          Inr (Some (take (nat n) account)))"

definition eleven_lists :: "dict list" where
  "eleven_lists =
     map (\<lambda>n. [(''id'', replicate (Suc n) CHR ''i''), (''title'', ''list'')]) [0..<11]"

definition paged_lists :: "event list \<Rightarrow> creds \<Rightarrow> request \<Rightarrow> exn + dict list option" where
  "paged_lists tr svc req =
     (if resource req = ''tasklists'' then
        (case kwargs req of
           [(k, PInt n)] \<Rightarrow> Inr (Some (take (nat n) eleven_lists))
         | _ \<Rightarrow> Inr (Some eleven_lists))
      else Inr None)"

section \<open>The credential store\<close>

lemma get_credentials_uncached:
  "\<not> cached_valid w \<Longrightarrow> get_credentials env w = acquire env w"
  by (simp add: get_credentials_def cached_valid_def split: option.splits)

lemma load_token_corrupt:
  "token_file w = Some s \<Longrightarrow> from_authorized_user_file env s = Inl x \<Longrightarrow>
   load_token env w =
     (None, w\<lparr>token_file := None, trace := trace w @ [ReadToken s, RemoveToken]\<rparr>)"
  by (simp add: load_token_def record_event_def)

lemma load_token_absent: "token_file w = None \<Longrightarrow> load_token env w = (None, w)"
  by (simp add: load_token_def)

lemma acquire_no_token:
  "load_token env w = (None, w1) \<Longrightarrow>
   acquire env w =
     (case run_flow env w1 of
        (Inl e, w3) \<Rightarrow> (Inl e, w3)
      | (Inr c, w3) \<Rightarrow> (Inr c, w3\<lparr>credentials := Some c\<rparr>))"
  by (simp add: acquire_def)

lemma flow_outcome_trace:
  "trace (snd (case run_flow env w of
                 (Inl e, w3) \<Rightarrow> (Inl e, w3)
               | (Inr c, w3) \<Rightarrow> (Inr c, w3\<lparr>credentials := Some c\<rparr>))) =
     trace w @ RunFlow #
       (case fst (case run_flow env w of
                    (Inl e, w3) \<Rightarrow> (Inl e, w3)
                  | (Inr c, w3) \<Rightarrow> (Inr c, w3\<lparr>credentials := Some c\<rparr>)) of
          Inl e \<Rightarrow> []
        | Inr c \<Rightarrow> [WriteToken (to_json env c)])"
  by (simp add: run_flow_def record_event_def split: sum.splits exn.splits)

lemma flow_outcome_token:
  "token_file (snd (case run_flow env w of
                      (Inl e, w3) \<Rightarrow> (Inl e, w3)
                    | (Inr c, w3) \<Rightarrow> (Inr c, w3\<lparr>credentials := Some c\<rparr>))) =
     (case fst (case run_flow env w of
                  (Inl e, w3) \<Rightarrow> (Inl e, w3)
                | (Inr c, w3) \<Rightarrow> (Inr c, w3\<lparr>credentials := Some c\<rparr>)) of
        Inl e \<Rightarrow> token_file w
      | Inr c \<Rightarrow> Some (to_json env c))"
  by (simp add: run_flow_def record_event_def split: sum.splits exn.splits)

text \<open>
  C6.  When \<open>get_credentials\<close> has to load the token file and the file does not parse, the
  file is removed: the load yields no credential and leaves a world without token file, in
  which a further load finds nothing and removes nothing.  From there \<open>get_credentials\<close>
  goes on exactly as it does from that world, in which nothing is stored.  The whole call
  reads the file once, removes it once and runs the interactive flow once; at its end the
  token file is absent when the flow failed and holds the new credential otherwise.
\<close>

theorem corrupt_token_self_heals:
  assumes tf: "token_file w = Some s" and corrupt: "from_authorized_user_file env s = Inl x"
    and uncached: "\<not> cached_valid w"
  shows "(let healed = w\<lparr>token_file := None, trace := trace w @ [ReadToken s, RemoveToken]\<rparr> in
          load_token env w = (None, healed) \<and>
          load_token env healed = (None, healed) \<and>
          get_credentials env w = get_credentials env healed \<and>
          trace (snd (get_credentials env w)) =
            trace w @ [ReadToken s, RemoveToken, RunFlow] @
              (case fst (get_credentials env w) of
                 Inl e \<Rightarrow> []
               | Inr c \<Rightarrow> [WriteToken (to_json env c)]) \<and>
          token_file (snd (get_credentials env w)) =
            (case fst (get_credentials env w) of
               Inl e \<Rightarrow> None
             | Inr c \<Rightarrow> Some (to_json env c)))"
proof -
  define healed where
    "healed = w\<lparr>token_file := None, trace := trace w @ [ReadToken s, RemoveToken]\<rparr>"
  have l1: "load_token env w = (None, healed)"
    unfolding healed_def by (rule load_token_corrupt [OF tf corrupt])
  have th: "token_file healed = None"
    by (simp add: healed_def)
  have l2: "load_token env healed = (None, healed)"
    by (rule load_token_absent [OF th])
  have u2: "\<not> cached_valid healed"
    using uncached by (simp add: healed_def cached_valid_def)
  have g1: "get_credentials env w = acquire env w"
    by (rule get_credentials_uncached [OF uncached])
  have g2: "get_credentials env healed = acquire env healed"
    by (rule get_credentials_uncached [OF u2])
  have a1: "acquire env w =
     (case run_flow env healed of
        (Inl e, w3) \<Rightarrow> (Inl e, w3)
      | (Inr c, w3) \<Rightarrow> (Inr c, w3\<lparr>credentials := Some c\<rparr>))"
    by (rule acquire_no_token [OF l1])
  have a2: "acquire env healed =
     (case run_flow env healed of
        (Inl e, w3) \<Rightarrow> (Inl e, w3)
      | (Inr c, w3) \<Rightarrow> (Inr c, w3\<lparr>credentials := Some c\<rparr>))"
    by (rule acquire_no_token [OF l2])
  have eq: "get_credentials env w = get_credentials env healed"
    by (simp only: g1 g2 a1 a2)
  have tr: "trace (snd (get_credentials env w)) =
            trace w @ [ReadToken s, RemoveToken, RunFlow] @
              (case fst (get_credentials env w) of
                 Inl e \<Rightarrow> []
               | Inr c \<Rightarrow> [WriteToken (to_json env c)])"
    unfolding g1 a1 flow_outcome_trace by (simp add: healed_def)
  have tok: "token_file (snd (get_credentials env w)) =
            (case fst (get_credentials env w) of
               Inl e \<Rightarrow> None
             | Inr c \<Rightarrow> Some (to_json env c))"
    unfolding g1 a1 flow_outcome_token th by (rule refl)
  show ?thesis
    unfolding Let_def healed_def [symmetric] using l1 l2 eq tr tok by blast
qed

theorem corrupt_token_self_heals_witness:
  "token_file (stored ''garbage'') = Some ''garbage'' \<and>
   from_authorized_user_file (sample_env login_ok remote_ok remote_no_items) ''garbage'' =
     Inl (Exception ''not a token file'') \<and>
   \<not> cached_valid (stored ''garbage'') \<and>
   get_credentials (sample_env login_ok remote_ok remote_no_items) (stored ''garbage'') =
     (Inr fresh_creds,
      \<lparr>token_file = Some ''fresh'', credentials = Some fresh_creds, service = None,
       trace = [ReadToken ''garbage'', RemoveToken, RunFlow, WriteToken ''fresh'']\<rparr>) \<and>
   get_credentials (sample_env login_ok remote_ok remote_no_items) (stored ''garbage'') =
     get_credentials (sample_env login_ok remote_ok remote_no_items)
       \<lparr>token_file = None, credentials = None, service = None,
        trace = [ReadToken ''garbage'', RemoveToken]\<rparr>"
proof -
  have h1: "token_file (stored ''garbage'') = Some ''garbage''"
    by (simp add: stored_def)
  have h2: "from_authorized_user_file (sample_env login_ok remote_ok remote_no_items) ''garbage'' =
     Inl (Exception ''not a token file'')"
    by (simp add: sample_env_def sample_parse_def)
  have h3: "\<not> cached_valid (stored ''garbage'')"
    by (simp add: stored_def cached_valid_def)
  have run: "get_credentials (sample_env login_ok remote_ok remote_no_items) (stored ''garbage'') =
     (Inr fresh_creds,
      \<lparr>token_file = Some ''fresh'', credentials = Some fresh_creds, service = None,
       trace = [ReadToken ''garbage'', RemoveToken, RunFlow, WriteToken ''fresh'']\<rparr>)"
    by (simp add: get_credentials_def acquire_def load_token_def run_flow_def record_event_def
        stored_def sample_env_def sample_parse_def login_ok_def fresh_creds_def)
  show ?thesis
    using corrupt_token_self_heals [OF h1 h2 h3] h1 h2 h3 run
    by (simp add: Let_def stored_def)
qed

text \<open>
  C2.  The token file holds an expired credential with a refresh token and the refresh
  succeeds: \<open>get_credentials\<close> returns and caches the refreshed credential, but the token
  file is not written; it still holds the credential from before the refresh.
\<close>

theorem refreshed_credential_not_persisted:
  "get_credentials (sample_env login_ok remote_ok remote_no_items) (stored ''stale'') =
     (Inr renewed_creds,
      \<lparr>token_file = Some ''stale'', credentials = Some renewed_creds, service = None,
       trace = [ReadToken ''stale'', RefreshToken stale_creds]\<rparr>) \<and>
   from_authorized_user_file (sample_env login_ok remote_ok remote_no_items) ''stale'' =
     Inr stale_creds \<and>
   stale_creds \<noteq> renewed_creds"
  by (simp add: get_credentials_def acquire_def load_token_def refresh_loaded_def record_event_def
        stored_def sample_env_def sample_parse_def stale_creds_def renewed_creds_def)

section \<open>The error handler\<close>

lemma succeeded_simps [simp]: "succeeded (Inl e) = False" "succeeded (Inr v) = True"
  by (simp_all add: succeeded_def)

text \<open>
  C1 (amended).  On an authorization failure (401 or 403) \<open>handle_api_error\<close> calls
  \<open>refresh_service\<close> exactly once.  It calls the retry callback exactly once when the refresh
  succeeded and a callback was supplied, and not at all otherwise; so the operation runs at
  most twice, the original call included.  When that one retry fails, with whatever
  exception, the handler raises the original error.  Counting the calls does not change
  what the handler does.
\<close>

theorem auth_failure_refresh_and_retry_once:
  assumes "auth_failure error"
  shows "(case handle_api_error (counting_refresh rs) operation error
                 (map_option counting_retry cb) (s, no_calls) of
            (res, s', n) \<Rightarrow>
              handle_api_error rs operation error cb s = (res, s') \<and>
              refreshes n = 1 \<and>
              retries n = (if succeeded (fst (rs s)) \<and> cb \<noteq> None then 1 else 0) \<and>
              Suc (retries n) \<le> 2 \<and>
              (\<forall>f. cb = Some f \<and> succeeded (fst (rs s)) \<and> \<not> succeeded (fst (f (snd (rs s))))
                   \<longrightarrow> res = Inl error))"
  using assms
  by (auto simp: handle_api_error_def counting_refresh_def counting_retry_def auth_failure_def
      no_calls_def
      split: exn.splits if_splits prod.splits sum.splits option.splits)

text \<open>
  The service answers every list request with 403, before and after the refresh: one
  refresh, one retry, and the original error is raised.
\<close>

theorem auth_failure_refresh_and_retry_once_witness:
  "auth_failure (HttpError 403 ''denied'') \<and>
   handle_api_error
     (counting_refresh (refresh_service (sample_env login_ok remote_ok remote_list_denied)))
     ''get_tasks'' (HttpError 403 ''denied'')
     (map_option counting_retry
        (Some (get_tasks (sample_env login_ok remote_ok remote_list_denied) (Some ''l1''))))
     (stored ''fresh'', no_calls) =
   (Inl (HttpError 403 ''denied''),
    \<lparr>token_file = Some ''fresh'', credentials = Some fresh_creds, service = Some fresh_creds,
     trace = [RemoveToken, RunFlow, WriteToken ''fresh'', Build fresh_creds,
              Execute fresh_creds
                (Request ''tasks'' ''list''
                   [(''tasklist'', PStr ''l1''), (''showCompleted'', PBool True),
                    (''showHidden'', PBool True)])]\<rparr>,
    \<lparr>refreshes = 1, retries = 1\<rparr>) \<and>
   fst (handle_api_error
          (refresh_service (sample_env login_ok remote_ok remote_list_denied))
          ''get_tasks'' (HttpError 403 ''denied'')
          (Some (get_tasks (sample_env login_ok remote_ok remote_list_denied) (Some ''l1'')))
          (stored ''fresh'')) =
   Inl (HttpError 403 ''denied'')"
proof -
  have h: "auth_failure (HttpError 403 ''denied'')"
    by (simp add: auth_failure_def)
  have run: "handle_api_error
     (counting_refresh (refresh_service (sample_env login_ok remote_ok remote_list_denied)))
     ''get_tasks'' (HttpError 403 ''denied'')
     (map_option counting_retry
        (Some (get_tasks (sample_env login_ok remote_ok remote_list_denied) (Some ''l1''))))
     (stored ''fresh'', no_calls) =
   (Inl (HttpError 403 ''denied''),
    \<lparr>token_file = Some ''fresh'', credentials = Some fresh_creds, service = Some fresh_creds,
     trace = [RemoveToken, RunFlow, WriteToken ''fresh'', Build fresh_creds,
              Execute fresh_creds
                (Request ''tasks'' ''list''
                   [(''tasklist'', PStr ''l1''), (''showCompleted'', PBool True),
                    (''showHidden'', PBool True)])]\<rparr>,
    \<lparr>refreshes = 1, retries = 1\<rparr>)"
    by (simp add: handle_api_error_def counting_refresh_def counting_retry_def no_calls_def
        refresh_service_def build_service_def refresh_credentials_def remove_token_file_def
        build_with_credentials_def get_credentials_def acquire_def load_token_def run_flow_def
        record_event_def get_tasks_def run_list_request_def service_property_def
        stored_def sample_env_def login_ok_def remote_list_denied_def fresh_creds_def)
  show ?thesis
    using auth_failure_refresh_and_retry_once
      [OF h, of "refresh_service (sample_env login_ok remote_ok remote_list_denied)" "''get_tasks''"
         "Some (get_tasks (sample_env login_ok remote_ok remote_list_denied) (Some ''l1''))"
         "stored ''fresh''"]
      h run
    by simp
qed

text \<open>
  The claim as stated fails: with no retry callback (the default) a 401 is followed by a
  refresh and no retry, and the handler returns; with a callback but a refresh that fails
  (the login is cancelled) there is no retry either.
\<close>

theorem retry_not_taken_counterexample:
  "handle_api_error
     (counting_refresh (refresh_service (sample_env login_ok remote_ok remote_list_denied)))
     ''get_tasks'' (HttpError 401 ''expired'')
     (map_option counting_retry (None :: (world \<Rightarrow> (exn + dict list) \<times> world) option))
     (stored ''fresh'', no_calls) =
   (Inr None,
    \<lparr>token_file = Some ''fresh'', credentials = Some fresh_creds, service = Some fresh_creds,
     trace = [RemoveToken, RunFlow, WriteToken ''fresh'', Build fresh_creds]\<rparr>,
    \<lparr>refreshes = 1, retries = 0\<rparr>) \<and>
   handle_api_error
     (counting_refresh (refresh_service (sample_env login_cancelled remote_ok remote_list_denied)))
     ''get_tasks'' (HttpError 403 ''denied'')
     (map_option counting_retry
        (Some (get_tasks (sample_env login_cancelled remote_ok remote_list_denied) (Some ''l1''))))
     (stored ''fresh'', no_calls) =
   (Inl (HttpError 403 ''denied''),
    \<lparr>token_file = None, credentials = None, service = None, trace = [RemoveToken, RunFlow]\<rparr>,
    \<lparr>refreshes = 1, retries = 0\<rparr>)"
  by (simp add: handle_api_error_def counting_refresh_def counting_retry_def no_calls_def
      refresh_service_def build_service_def refresh_credentials_def remove_token_file_def
      build_with_credentials_def get_credentials_def acquire_def load_token_def run_flow_def
      record_event_def stored_def sample_env_def login_ok_def login_cancelled_def fresh_creds_def)

text \<open>
  C7 (amended).  The only exception that leaves \<open>handle_api_error\<close> is the error it was
  given.  It returns normally only for an authorization failure whose refresh succeeded:
  with the value of the retry when a callback was supplied and the retry succeeded, and
  with nothing, the error dropped and no retry made, when no callback was supplied.  Any
  other error is raised again with the state untouched.
\<close>

theorem handler_outcomes:
  assumes "handle_api_error rs operation error cb s = (res, s')"
  shows "(\<forall>e. res = Inl e \<longrightarrow> e = error) \<and>
         (\<forall>x. res = Inr x \<longrightarrow>
            auth_failure error \<and> succeeded (fst (rs s)) \<and>
            (case cb of
               None \<Rightarrow> x = None
             | Some f \<Rightarrow> (case fst (f (snd (rs s))) of Inl e \<Rightarrow> False | Inr v \<Rightarrow> x = Some v))) \<and>
         (\<not> auth_failure error \<longrightarrow> res = Inl error \<and> s' = s)"
  using assms
  by (auto simp: handle_api_error_def auth_failure_def
      split: exn.splits if_splits prod.splits sum.splits option.splits)

theorem handler_outcomes_witness:
  "handle_api_error (refresh_service (sample_env login_ok remote_ok remote_no_items))
     ''get_tasks'' (HttpError 403 ''denied'')
     (Some (get_tasks (sample_env login_ok remote_ok remote_no_items) (Some ''l1'')))
     (stored ''fresh'') =
   (Inr (Some []),
    \<lparr>token_file = Some ''fresh'', credentials = Some fresh_creds, service = Some fresh_creds,
     trace = [RemoveToken, RunFlow, WriteToken ''fresh'', Build fresh_creds,
              Execute fresh_creds
                (Request ''tasks'' ''list''
                   [(''tasklist'', PStr ''l1''), (''showCompleted'', PBool True),
                    (''showHidden'', PBool True)])]\<rparr>) \<and>
   auth_failure (HttpError 403 ''denied'') \<and>
   succeeded (fst (refresh_service (sample_env login_ok remote_ok remote_no_items)
                     (stored ''fresh''))) \<and>
   \<not> auth_failure (HttpError 500 ''backend error'') \<and>
   handle_api_error (refresh_service (sample_env login_ok remote_ok remote_no_items))
     ''get_tasks'' (HttpError 500 ''backend error'')
     (Some (get_tasks (sample_env login_ok remote_ok remote_no_items) (Some ''l1'')))
     (stored ''fresh'') =
   (Inl (HttpError 500 ''backend error''), stored ''fresh'')"
proof -
  have na: "\<not> auth_failure (HttpError 500 ''backend error'')"
    by (simp add: auth_failure_def)
  have other: "handle_api_error (refresh_service (sample_env login_ok remote_ok remote_no_items))
     ''get_tasks'' (HttpError 500 ''backend error'')
     (Some (get_tasks (sample_env login_ok remote_ok remote_no_items) (Some ''l1'')))
     (stored ''fresh'') =
   (Inl (HttpError 500 ''backend error''), stored ''fresh'')"
    using handler_outcomes [OF surjective_pairing,
        where error = "HttpError 500 ''backend error''"
          and rs = "refresh_service (sample_env login_ok remote_ok remote_no_items)"
          and operation = "''get_tasks''"
          and cb = "Some (get_tasks (sample_env login_ok remote_ok remote_no_items) (Some ''l1''))"
          and s = "stored ''fresh''"] na
    by (simp add: prod_eq_iff)
  have run: "handle_api_error (refresh_service (sample_env login_ok remote_ok remote_no_items))
     ''get_tasks'' (HttpError 403 ''denied'')
     (Some (get_tasks (sample_env login_ok remote_ok remote_no_items) (Some ''l1'')))
     (stored ''fresh'') =
   (Inr (Some []),
    \<lparr>token_file = Some ''fresh'', credentials = Some fresh_creds, service = Some fresh_creds,
     trace = [RemoveToken, RunFlow, WriteToken ''fresh'', Build fresh_creds,
              Execute fresh_creds
                (Request ''tasks'' ''list''
                   [(''tasklist'', PStr ''l1''), (''showCompleted'', PBool True),
                    (''showHidden'', PBool True)])]\<rparr>)"
    by (simp add: handle_api_error_def
        refresh_service_def build_service_def refresh_credentials_def remove_token_file_def
        build_with_credentials_def get_credentials_def acquire_def load_token_def run_flow_def
        record_event_def get_tasks_def run_list_request_def service_property_def
        stored_def sample_env_def login_ok_def remote_no_items_def fresh_creds_def)
  show ?thesis
    using handler_outcomes [OF run] run na other by simp
qed

text \<open>
  The claim as stated fails: a 403 handled without a retry callback is swallowed.  The
  handler refreshes the credentials, sends no request and returns normally.
\<close>

theorem error_dropped_counterexample:
  "handle_api_error (refresh_service (sample_env login_ok remote_ok remote_no_items))
     ''delete_task'' (HttpError 403 ''denied'')
     (None :: (world \<Rightarrow> (exn + dict) \<times> world) option)
     (stored ''fresh'') =
   (Inr None,
    \<lparr>token_file = Some ''fresh'', credentials = Some fresh_creds, service = Some fresh_creds,
     trace = [RemoveToken, RunFlow, WriteToken ''fresh'', Build fresh_creds]\<rparr>)"
  by (simp add: handle_api_error_def
      refresh_service_def build_service_def refresh_credentials_def remove_token_file_def
      build_with_credentials_def get_credentials_def acquire_def load_token_def run_flow_def
      record_event_def stored_def sample_env_def login_ok_def fresh_creds_def)

section \<open>Loading\<close>

lemma load_task_lists_all:
  "list_all well_formed task_lists \<Longrightarrow>
   load_task_lists env task_lists s = (x, s') \<Longrightarrow>
     x = None \<and>
     tree s' =
       tree s @ map2 (\<lambda>d r. (list_item_of d, task_children r)) task_lists
                  (fetch_outcomes env task_lists (api s)) \<and>
     error_messages s' = error_messages s \<and> quit s' = quit s"
proof (induction task_lists arbitrary: s)
  case Nil
  then show ?case by simp
next
  case (Cons d ds)
  from Cons.prems(1) have wfd: "well_formed d" and wf: "list_all well_formed ds"
    by simp_all
  from wfd obtain t i where t: "map_of d ''title'' = Some t" and i: "map_of d ''id'' = Some i"
    by (auto simp: well_formed_def)
  obtain r w where g: "get_tasks env (Some i) (api s) = (r, w)"
    by (cases "get_tasks env (Some i) (api s)")
  define s1 where "s1 = s\<lparr>api := w,
                         tree := tree s @ [(TaskTreeItem t (Some i) None, task_children r)],
                         status_bar :=
                           (case fetch_error r of
                              None \<Rightarrow> status_bar s
                            | Some e \<Rightarrow>
                                MsgExn (''Error loading tasks for list '' @ t @ '': '') e)\<rparr>"
  have step: "load_task_lists env (d # ds) s = load_task_lists env ds s1"
    by (simp add: dict_item_def t i g s1_def)
  with Cons.prems(2) have "load_task_lists env ds s1 = (x, s')" by simp
  from Cons.IH [OF wf this]
  show ?case
    by (simp add: s1_def t i g list_item_of_def)
qed

lemma map_fst_map2:
  "length xs = length ys \<Longrightarrow> map fst (map2 (\<lambda>x y. (f x, g y)) xs ys) = map f xs"
  by (induction xs ys rule: list_induct2) auto

lemma map_snd_map2:
  "length xs = length ys \<Longrightarrow> map snd (map2 (\<lambda>x y. (f x, g y)) xs ys) = map g ys"
  by (induction xs ys rule: list_induct2) auto

lemma length_fetch_outcomes: "length (fetch_outcomes env task_lists w) = length task_lists"
  by (induction task_lists arbitrary: w) (auto split: prod.splits)

lemma load_tasks_data_failed:
  "get_task_lists env (api s) = (Inl e, w) \<Longrightarrow>
   load_tasks_data env s =
     s\<lparr>api := w, tree := [],
       status_bar := MsgExn ''Error loading task lists: '' e,
       error_messages :=
         error_messages s @ [(''API Error'', MsgExn ''Could not load task lists: '' e)]\<rparr>"
  by (simp add: load_tasks_data_def)

lemma load_tasks_data_loaded:
  assumes g: "get_task_lists env (api s) = (Inr task_lists, w)"
    and ne: "task_lists \<noteq> []" and wf: "list_all well_formed task_lists"
  shows "tree (load_tasks_data env s) =
           map2 (\<lambda>d r. (list_item_of d, task_children r)) task_lists
             (fetch_outcomes env task_lists w) \<and>
         status_bar (load_tasks_data env s) = Msg ''Tasks loaded successfully'' \<and>
         error_messages (load_tasks_data env s) = error_messages s \<and>
         quit (load_tasks_data env s) = quit s"
proof -
  define s0 where "s0 = s\<lparr>api := w, tree := [], status_bar := Msg ''Loading tasks...''\<rparr>"
  obtain x s1 where l: "load_task_lists env task_lists s0 = (x, s1)"
    by (cases "load_task_lists env task_lists s0")
  from load_task_lists_all [OF wf l]
  have x: "x = None"
    and t: "tree s1 = map2 (\<lambda>d r. (list_item_of d, task_children r)) task_lists
                        (fetch_outcomes env task_lists w)"
    and m: "error_messages s1 = error_messages s" and q: "quit s1 = quit s"
    by (simp_all add: s0_def)
  have "load_tasks_data env s = s1\<lparr>status_bar := Msg ''Tasks loaded successfully''\<rparr>"
    using g ne l x by (simp add: load_tasks_data_def s0_def)
  then show ?thesis using t m q by simp
qed

lemma create_items_loop_all:
  "list_all well_formed tasks \<Longrightarrow>
   create_items_loop tasks kids = (None, kids @ map task_item_of tasks)"
proof (induction tasks arbitrary: kids)
  case Nil
  then show ?case by simp
next
  case (Cons task tasks)
  from Cons.prems have wft: "well_formed task" and wf: "list_all well_formed tasks"
    by simp_all
  from wft obtain t i where t: "map_of task ''title'' = Some t" and i: "map_of task ''id'' = Some i"
    by (auto simp: well_formed_def)
  show ?case
    by (simp add: dict_item_def t i Let_def Cons.IH [OF wf] task_item_of_def style_task_item_def)
qed

lemma task_children_failed: "task_children (Inl e) = [error_item e]"
  by (simp add: task_children_def)

lemma task_children_empty: "task_children (Inr []) = [error_item (AttributeError ''Italic'')]"
  by (simp add: task_children_def create_task_items_def create_empty_list_indicator_def)

lemma task_children_loaded:
  "tasks \<noteq> [] \<Longrightarrow> list_all well_formed tasks \<Longrightarrow>
   task_children (Inr tasks) = map task_item_of tasks"
  by (simp add: task_children_def create_task_items_def create_items_loop_all)

text \<open>
  C3.  When \<open>get_task_lists\<close> fails, the tree is left empty and the failure is shown in the
  status bar and in an error dialog.  When it returns task lists, every list gets its item,
  in order, whatever its \<open>get_tasks\<close> call did, and the load ends with the message of
  success.  A list whose call failed has the error item, carrying that failure, as its only
  child.  A list whose call returned tasks (each with a title and an id) has exactly their
  items as children, in order.  A list whose call returned no task also ends with an error
  item as its only child, the one of the \<open>AttributeError\<close> raised while the placeholder is
  built.
\<close>

theorem load_isolates_list_failures:
  "(case get_task_lists env (api s) of
      (Inl e, w) \<Rightarrow>
        tree (load_tasks_data env s) = [] \<and>
        status_bar (load_tasks_data env s) = MsgExn ''Error loading task lists: '' e \<and>
        error_messages (load_tasks_data env s) =
          error_messages s @ [(''API Error'', MsgExn ''Could not load task lists: '' e)]
    | (Inr task_lists, w) \<Rightarrow>
        task_lists \<noteq> [] \<and> list_all well_formed task_lists \<longrightarrow>
          map fst (tree (load_tasks_data env s)) = map list_item_of task_lists \<and>
          map snd (tree (load_tasks_data env s)) =
            map task_children (fetch_outcomes env task_lists w) \<and>
          (\<forall>i e. i < length task_lists \<and> fetch_outcomes env task_lists w ! i = Inl e \<longrightarrow>
             tree (load_tasks_data env s) ! i = (list_item_of (task_lists ! i), [error_item e])) \<and>
          (\<forall>i tasks. i < length task_lists \<and> fetch_outcomes env task_lists w ! i = Inr tasks \<and>
                     tasks \<noteq> [] \<and> list_all well_formed tasks \<longrightarrow>
             tree (load_tasks_data env s) ! i =
               (list_item_of (task_lists ! i), map task_item_of tasks)) \<and>
          (\<forall>i. i < length task_lists \<and> fetch_outcomes env task_lists w ! i = Inr [] \<longrightarrow>
             tree (load_tasks_data env s) ! i =
               (list_item_of (task_lists ! i), [error_item (AttributeError ''Italic'')])) \<and>
          status_bar (load_tasks_data env s) = Msg ''Tasks loaded successfully'' \<and>
          error_messages (load_tasks_data env s) = error_messages s)"
proof (cases "get_task_lists env (api s)")
  case (Pair r w)
  show ?thesis
  proof (cases r)
    case (Inl e)
    with Pair load_tasks_data_failed [of env s e w] show ?thesis by simp
  next
    case (Inr task_lists)
    have "map fst (tree (load_tasks_data env s)) = map list_item_of task_lists \<and>
          map snd (tree (load_tasks_data env s)) =
            map task_children (fetch_outcomes env task_lists w) \<and>
          (\<forall>i e. i < length task_lists \<and> fetch_outcomes env task_lists w ! i = Inl e \<longrightarrow>
             tree (load_tasks_data env s) ! i = (list_item_of (task_lists ! i), [error_item e])) \<and>
          (\<forall>i tasks. i < length task_lists \<and> fetch_outcomes env task_lists w ! i = Inr tasks \<and>
                     tasks \<noteq> [] \<and> list_all well_formed tasks \<longrightarrow>
             tree (load_tasks_data env s) ! i =
               (list_item_of (task_lists ! i), map task_item_of tasks)) \<and>
          (\<forall>i. i < length task_lists \<and> fetch_outcomes env task_lists w ! i = Inr [] \<longrightarrow>
             tree (load_tasks_data env s) ! i =
               (list_item_of (task_lists ! i), [error_item (AttributeError ''Italic'')])) \<and>
          status_bar (load_tasks_data env s) = Msg ''Tasks loaded successfully'' \<and>
          error_messages (load_tasks_data env s) = error_messages s"
      if ne: "task_lists \<noteq> []" and wf: "list_all well_formed task_lists"
    proof -
      from Pair Inr have g: "get_task_lists env (api s) = (Inr task_lists, w)" by simp
      note L = load_tasks_data_loaded [OF g ne wf]
      have len: "length (fetch_outcomes env task_lists w) = length task_lists"
        by (rule length_fetch_outcomes)
      from L have t: "tree (load_tasks_data env s) =
           map2 (\<lambda>d r. (list_item_of d, task_children r)) task_lists
             (fetch_outcomes env task_lists w)" by simp
      have f: "map fst (tree (load_tasks_data env s)) = map list_item_of task_lists"
        unfolding t using len [symmetric] by (rule map_fst_map2)
      have c: "map snd (tree (load_tasks_data env s)) =
            map task_children (fetch_outcomes env task_lists w)"
        unfolding t using len [symmetric] by (rule map_snd_map2)
      have nth: "tree (load_tasks_data env s) ! i =
                   (list_item_of (task_lists ! i),
                    task_children (fetch_outcomes env task_lists w ! i))"
        if "i < length task_lists" for i
        unfolding t using that len by simp
      have n1: "\<forall>i e. i < length task_lists \<and> fetch_outcomes env task_lists w ! i = Inl e \<longrightarrow>
             tree (load_tasks_data env s) ! i = (list_item_of (task_lists ! i), [error_item e])"
        using nth by (simp add: task_children_failed)
      have n2: "\<forall>i tasks. i < length task_lists \<and> fetch_outcomes env task_lists w ! i = Inr tasks \<and>
                     tasks \<noteq> [] \<and> list_all well_formed tasks \<longrightarrow>
             tree (load_tasks_data env s) ! i =
               (list_item_of (task_lists ! i), map task_item_of tasks)"
        using nth by (simp add: task_children_loaded)
      have n3: "\<forall>i. i < length task_lists \<and> fetch_outcomes env task_lists w ! i = Inr [] \<longrightarrow>
             tree (load_tasks_data env s) ! i =
               (list_item_of (task_lists ! i), [error_item (AttributeError ''Italic'')])"
        using nth by (simp add: task_children_empty)
      from f c n1 n2 n3 L show ?thesis
        by blast
    qed
    with Pair Inr show ?thesis by simp
  qed
qed

text \<open>
  On the sample service with three lists: the first list shows its three tasks, the second
  the error item of its failed call, the third the error item of the \<open>AttributeError\<close>;
  and on a service that refuses to list the task lists the tree that was shown is emptied.
\<close>

theorem load_isolates_list_failures_witness:
  "get_task_lists (sample_env login_ok remote_ok three_lists) (api (window [])) =
     (Inr [[(''id'', ''a''), (''title'', ''A'')], [(''id'', ''b''), (''title'', ''B'')],
           [(''id'', ''c''), (''title'', ''C'')]],
      signed_in\<lparr>trace := [Execute fresh_creds
                             (Request ''tasklists'' ''list'' [(''maxResults'', PInt 10)])]\<rparr>) \<and>
   list_all well_formed [[(''id'', ''a''), (''title'', ''A'')], [(''id'', ''b''), (''title'', ''B'')],
                         [(''id'', ''c''), (''title'', ''C'')]] \<and>
   fetch_outcomes (sample_env login_ok remote_ok three_lists)
     [[(''id'', ''a''), (''title'', ''A'')], [(''id'', ''b''), (''title'', ''B'')],
      [(''id'', ''c''), (''title'', ''C'')]]
     (signed_in\<lparr>trace := [Execute fresh_creds
                             (Request ''tasklists'' ''list'' [(''maxResults'', PInt 10)])]\<rparr>) =
     [Inr [[(''id'', ''t1''), (''title'', ''milk''), (''status'', ''needsAction'')],
           [(''id'', ''t2''), (''title'', ''eggs''), (''status'', ''completed'')],
           [(''id'', ''t3''), (''title'', ''tea'')]],
      Inl (Exception ''timeout''),
      Inr []] \<and>
   tree (load_tasks_data (sample_env login_ok remote_ok three_lists) (window [])) =
     [(TaskTreeItem ''A'' (Some ''a'') None,
       [TaskTreeItem ''milk'' (Some ''t1'') (Some ''needsAction''),
        TaskTreeItem (check_mark @ ''eggs'') (Some ''t2'') (Some ''completed''),
        TaskTreeItem ''tea'' (Some ''t3'') (Some ''needsAction'')]),
      (TaskTreeItem ''B'' (Some ''b'') None,
       [QTreeWidgetItem (MsgExn '' Error loading tasks: '' (Exception ''timeout''))]),
      (TaskTreeItem ''C'' (Some ''c'') None,
       [QTreeWidgetItem (MsgExn '' Error loading tasks: '' (AttributeError ''Italic''))])] \<and>
   status_bar (load_tasks_data (sample_env login_ok remote_ok three_lists) (window [])) =
     Msg ''Tasks loaded successfully'' \<and>
   error_messages (load_tasks_data (sample_env login_ok remote_ok three_lists) (window [])) = [] \<and>
   get_task_lists (sample_env login_ok remote_ok remote_list_denied)
     (api (window [(TaskTreeItem ''A'' (Some ''a'') None, [])])) =
     (Inl (HttpError 403 ''denied''),
      signed_in\<lparr>trace := [Execute fresh_creds
                             (Request ''tasklists'' ''list'' [(''maxResults'', PInt 10)])]\<rparr>) \<and>
   tree (load_tasks_data (sample_env login_ok remote_ok remote_list_denied)
           (window [(TaskTreeItem ''A'' (Some ''a'') None, [])])) = [] \<and>
   status_bar (load_tasks_data (sample_env login_ok remote_ok remote_list_denied)
           (window [(TaskTreeItem ''A'' (Some ''a'') None, [])])) =
     MsgExn ''Error loading task lists: '' (HttpError 403 ''denied'') \<and>
   error_messages (load_tasks_data (sample_env login_ok remote_ok remote_list_denied)
           (window [(TaskTreeItem ''A'' (Some ''a'') None, [])])) =
     [(''API Error'', MsgExn ''Could not load task lists: '' (HttpError 403 ''denied''))]"
proof -
  define w1 where "w1 = signed_in\<lparr>trace := [Execute fresh_creds
                             (Request ''tasklists'' ''list'' [(''maxResults'', PInt 10)])]\<rparr>"
  define E where "E = sample_env login_ok remote_ok three_lists"
  define ls where "ls = [[(''id'', ''a''), (''title'', ''A'')], [(''id'', ''b''), (''title'', ''B'')],
                         [(''id'', ''c''), (''title'', ''C'')]]"
  define ts where "ts = [[(''id'', ''t1''), (''title'', ''milk''), (''status'', ''needsAction'')],
           [(''id'', ''t2''), (''title'', ''eggs''), (''status'', ''completed'')],
           [(''id'', ''t3''), (''title'', ''tea'')]]"
  define T where "T = tree (load_tasks_data E (window []))"
  have g: "get_task_lists E (api (window [])) = (Inr ls, w1)"
    by (simp add: get_task_lists_def run_list_request_def service_property_def record_event_def
        window_def signed_in_def sample_env_def three_lists_def MAX_RESULTS_def w1_def E_def ls_def)
  have wf: "list_all well_formed ls"
    by (simp add: well_formed_def ls_def)
  have len: "length ls = 3"
    by (simp add: ls_def)
  have fo: "fetch_outcomes E ls w1 = [Inr ts, Inl (Exception ''timeout''), Inr []]"
    by (simp add: get_tasks_def run_list_request_def service_property_def record_event_def
        signed_in_def sample_env_def three_lists_def w1_def E_def ls_def ts_def)
  have wft: "ts \<noteq> [] \<and> list_all well_formed ts"
    by (simp add: well_formed_def ts_def)
  from load_isolates_list_failures [of E "window []"] g wf len
  have names: "map fst T = map list_item_of ls"
    and failed: "\<forall>i e. i < 3 \<and> fetch_outcomes E ls w1 ! i = Inl e \<longrightarrow>
                   T ! i = (list_item_of (ls ! i), [error_item e])"
    and loaded: "\<forall>i tasks. i < 3 \<and> fetch_outcomes E ls w1 ! i = Inr tasks \<and>
                   tasks \<noteq> [] \<and> list_all well_formed tasks \<longrightarrow>
                   T ! i = (list_item_of (ls ! i), map task_item_of tasks)"
    and empty: "\<forall>i. i < 3 \<and> fetch_outcomes E ls w1 ! i = Inr [] \<longrightarrow>
                   T ! i = (list_item_of (ls ! i), [error_item (AttributeError ''Italic'')])"
    and bar: "status_bar (load_tasks_data E (window [])) = Msg ''Tasks loaded successfully''"
    and msgs: "error_messages (load_tasks_data E (window [])) = error_messages (window [])"
    by (simp_all add: ls_def T_def)
  from names have lenT: "length T = 3"
    using len by (metis length_map)
  from loaded [rule_format, of 0 ts] fo wft
  have t0: "T ! 0 = (list_item_of (ls ! 0), map task_item_of ts)" by simp
  from failed [rule_format, of 1 "Exception ''timeout''"] fo
  have t1: "T ! 1 = (list_item_of (ls ! 1), [error_item (Exception ''timeout'')])" by simp
  from empty [rule_format, of 2] fo
  have t2: "T ! 2 = (list_item_of (ls ! 2), [error_item (AttributeError ''Italic'')])" by simp
  have "T = [T ! 0, T ! 1, T ! 2]"
    using lenT by (simp add: list_eq_iff_nth_eq nth_Cons' numeral_3_eq_3 numeral_2_eq_2 less_Suc_eq)
  then have tree: "T =
     [(TaskTreeItem ''A'' (Some ''a'') None,
       [TaskTreeItem ''milk'' (Some ''t1'') (Some ''needsAction''),
        TaskTreeItem (check_mark @ ''eggs'') (Some ''t2'') (Some ''completed''),
        TaskTreeItem ''tea'' (Some ''t3'') (Some ''needsAction'')]),
      (TaskTreeItem ''B'' (Some ''b'') None,
       [QTreeWidgetItem (MsgExn '' Error loading tasks: '' (Exception ''timeout''))]),
      (TaskTreeItem ''C'' (Some ''c'') None,
       [QTreeWidgetItem (MsgExn '' Error loading tasks: '' (AttributeError ''Italic''))])]"
    unfolding t0 t1 t2
    by (simp add: ls_def ts_def list_item_of_def task_item_of_def error_item_def)
  have g2: "get_task_lists (sample_env login_ok remote_ok remote_list_denied)
     (api (window [(TaskTreeItem ''A'' (Some ''a'') None, [])])) =
     (Inl (HttpError 403 ''denied''), w1)"
    by (simp add: get_task_lists_def run_list_request_def service_property_def record_event_def
        window_def signed_in_def sample_env_def remote_list_denied_def MAX_RESULTS_def w1_def)
  from load_isolates_list_failures [of "sample_env login_ok remote_ok remote_list_denied"
         "window [(TaskTreeItem ''A'' (Some ''a'') None, [])]"] g2
  have denied: "tree (load_tasks_data (sample_env login_ok remote_ok remote_list_denied)
           (window [(TaskTreeItem ''A'' (Some ''a'') None, [])])) = [] \<and>
   status_bar (load_tasks_data (sample_env login_ok remote_ok remote_list_denied)
           (window [(TaskTreeItem ''A'' (Some ''a'') None, [])])) =
     MsgExn ''Error loading task lists: '' (HttpError 403 ''denied'') \<and>
   error_messages (load_tasks_data (sample_env login_ok remote_ok remote_list_denied)
           (window [(TaskTreeItem ''A'' (Some ''a'') None, [])])) =
     [(''API Error'', MsgExn ''Could not load task lists: '' (HttpError 403 ''denied''))]"
    by (simp add: window_def)
  have m0: "error_messages (window []) = []"
    by (simp add: window_def)
  show ?thesis
    using g wf fo tree bar msgs m0 g2 denied
    unfolding w1_def [symmetric] E_def [symmetric] ls_def [symmetric] ts_def [symmetric]
      T_def [symmetric]
    by simp
qed

section \<open>Deleting\<close>

lemma run_request_with_service:
  "service_property env w = (Inr svc, w1) \<Longrightarrow>
   run_request env req w = (execute env (trace w1) svc req, record_event (Execute svc req) w1)"
  by (simp add: run_request_def)

lemma delete_task_item:
  assumes "child_at (tree s) i j = Some (TaskTreeItem ptxt tasklist_id pst, kids)"
    and "kids ! j = TaskTreeItem txt tid st"
    and "delete_task env tasklist_id tid (api s) = (res, w)"
  shows "delete_selected_task env (Child i j # others) True s =
           (case res of
              Inl e \<Rightarrow> s\<lparr>api := w, status_bar := MsgExn ''Error deleting task: '' e\<rparr>
            | Inr v \<Rightarrow> s\<lparr>api := w, tree := remove_child (tree s) i j,
                          status_bar := Msg ''Task deleted successfully''\<rparr>)"
  using assms by (simp add: delete_selected_task_def split: sum.splits)

lemma delete_list_item:
  assumes "i < length (tree s)" and "fst (tree s ! i) = TaskTreeItem txt tasklist_id st"
    and "delete_tasklist env tasklist_id (api s) = (res, w)"
  shows "delete_selected_task env (TopLevel i # others) True s =
           (case res of
              Inl e \<Rightarrow> s\<lparr>api := w, status_bar := MsgExn ''Error deleting task list: '' e\<rparr>
            | Inr v \<Rightarrow> s\<lparr>api := w, tree := remove_nth i (tree s),
                          status_bar := Msg ''Task list deleted successfully''\<rparr>)"
  using assms by (simp add: delete_selected_task_def split: sum.splits)

lemma delete_declined: "delete_selected_task env (r # others) False s = s"
  by (simp add: delete_selected_task_def split: ref.splits option.splits item.splits prod.splits)

text \<open>
  C9.  Deleting a task, and deleting a task list, once the user has confirmed: the only
  call made is the remote delete, and the tree is changed after it and by its outcome.  When
  the call fails the whole tree is as it was and the status bar shows the error; when it
  succeeds exactly the selected item is removed.  When the user declines nothing happens.
\<close>

theorem delete_is_remote_first:
  "(child_at (tree s) i j = Some (TaskTreeItem pcaption tasklist_id pst, kids) \<and>
    kids ! j = TaskTreeItem caption tid st \<and>
    delete_task env tasklist_id tid (api s) = (res, w) \<longrightarrow>
      api (delete_selected_task env (Child i j # others) True s) = w \<and>
      (case res of
         Inl e \<Rightarrow>
           tree (delete_selected_task env (Child i j # others) True s) = tree s \<and>
           status_bar (delete_selected_task env (Child i j # others) True s) =
             MsgExn ''Error deleting task: '' e
       | Inr v \<Rightarrow>
           tree (delete_selected_task env (Child i j # others) True s) =
             remove_child (tree s) i j)) \<and>
   (n < length (tree s) \<and> fst (tree s ! n) = TaskTreeItem lcaption list_id lst \<and>
    delete_tasklist env list_id (api s) = (lres, lw) \<longrightarrow>
      api (delete_selected_task env (TopLevel n # others) True s) = lw \<and>
      (case lres of
         Inl e \<Rightarrow>
           tree (delete_selected_task env (TopLevel n # others) True s) = tree s \<and>
           status_bar (delete_selected_task env (TopLevel n # others) True s) =
             MsgExn ''Error deleting task list: '' e
       | Inr v \<Rightarrow>
           tree (delete_selected_task env (TopLevel n # others) True s) =
             remove_nth n (tree s))) \<and>
   delete_selected_task env (r # others) False s = s"
proof (intro conjI impI)
  assume a: "child_at (tree s) i j = Some (TaskTreeItem pcaption tasklist_id pst, kids) \<and>
      kids ! j = TaskTreeItem caption tid st \<and>
      delete_task env tasklist_id tid (api s) = (res, w)"
  then have eq: "delete_selected_task env (Child i j # others) True s =
           (case res of
              Inl e \<Rightarrow> s\<lparr>api := w, status_bar := MsgExn ''Error deleting task: '' e\<rparr>
            | Inr v \<Rightarrow> s\<lparr>api := w, tree := remove_child (tree s) i j,
                          status_bar := Msg ''Task deleted successfully''\<rparr>)"
    by (intro delete_task_item) auto
  show "api (delete_selected_task env (Child i j # others) True s) = w"
    unfolding eq by (simp split: sum.splits)
  show "(case res of
           Inl e \<Rightarrow>
             tree (delete_selected_task env (Child i j # others) True s) = tree s \<and>
             status_bar (delete_selected_task env (Child i j # others) True s) =
               MsgExn ''Error deleting task: '' e
         | Inr v \<Rightarrow>
             tree (delete_selected_task env (Child i j # others) True s) =
               remove_child (tree s) i j)"
    unfolding eq by (simp split: sum.splits)
next
  assume a: "n < length (tree s) \<and> fst (tree s ! n) = TaskTreeItem lcaption list_id lst \<and>
      delete_tasklist env list_id (api s) = (lres, lw)"
  then have eq: "delete_selected_task env (TopLevel n # others) True s =
           (case lres of
              Inl e \<Rightarrow> s\<lparr>api := lw, status_bar := MsgExn ''Error deleting task list: '' e\<rparr>
            | Inr v \<Rightarrow> s\<lparr>api := lw, tree := remove_nth n (tree s),
                          status_bar := Msg ''Task list deleted successfully''\<rparr>)"
    by (intro delete_list_item) auto
  show "api (delete_selected_task env (TopLevel n # others) True s) = lw"
    unfolding eq by (simp split: sum.splits)
  show "(case lres of
           Inl e \<Rightarrow>
             tree (delete_selected_task env (TopLevel n # others) True s) = tree s \<and>
             status_bar (delete_selected_task env (TopLevel n # others) True s) =
               MsgExn ''Error deleting task list: '' e
         | Inr v \<Rightarrow>
             tree (delete_selected_task env (TopLevel n # others) True s) =
               remove_nth n (tree s))"
    unfolding eq by (simp split: sum.splits)
next
  show "delete_selected_task env (r # others) False s = s"
    by (rule delete_declined)
qed

theorem delete_is_remote_first_witness:
  "child_at (tree (window shopping)) 0 1 =
     Some (TaskTreeItem ''A'' (Some ''a'') None,
           [TaskTreeItem ''milk'' (Some ''t1'') (Some ''needsAction''),
            TaskTreeItem ''eggs'' (Some ''t2'') (Some ''needsAction'')]) \<and>
   delete_task (sample_env login_ok remote_broken remote_no_items) (Some ''a'') (Some ''t2'')
     (api (window shopping)) =
     (Inl (HttpError 500 ''backend error''),
      signed_in\<lparr>trace := [Execute fresh_creds
                             (Request ''tasks'' ''delete''
                                [(''tasklist'', PStr ''a''), (''task'', PStr ''t2'')])]\<rparr>) \<and>
   tree (delete_selected_task (sample_env login_ok remote_broken remote_no_items)
           [Child 0 1] True (window shopping)) = shopping \<and>
   status_bar (delete_selected_task (sample_env login_ok remote_broken remote_no_items)
           [Child 0 1] True (window shopping)) =
     MsgExn ''Error deleting task: '' (HttpError 500 ''backend error'') \<and>
   delete_tasklist (sample_env login_ok remote_ok remote_no_items) (Some ''a'')
     (api (window shopping)) =
     (Inr (),
      signed_in\<lparr>trace := [Execute fresh_creds
                             (Request ''tasklists'' ''delete'' [(''tasklist'', PStr ''a'')])]\<rparr>) \<and>
   tree (delete_selected_task (sample_env login_ok remote_ok remote_no_items)
           [TopLevel 0] True (window shopping)) = []"
proof -
  have c: "child_at (tree (window shopping)) 0 1 =
     Some (TaskTreeItem ''A'' (Some ''a'') None,
           [TaskTreeItem ''milk'' (Some ''t1'') (Some ''needsAction''),
            TaskTreeItem ''eggs'' (Some ''t2'') (Some ''needsAction'')])"
    by (simp add: child_at_def window_def shopping_def)
  have d: "delete_task (sample_env login_ok remote_broken remote_no_items) (Some ''a'') (Some ''t2'')
     (api (window shopping)) =
     (Inl (HttpError 500 ''backend error''),
      signed_in\<lparr>trace := [Execute fresh_creds
                             (Request ''tasks'' ''delete''
                                [(''tasklist'', PStr ''a''), (''task'', PStr ''t2'')])]\<rparr>)"
    by (simp add: delete_task_def run_request_def service_property_def record_event_def
        window_def signed_in_def sample_env_def remote_broken_def)
  have l: "delete_tasklist (sample_env login_ok remote_ok remote_no_items) (Some ''a'')
     (api (window shopping)) =
     (Inr (),
      signed_in\<lparr>trace := [Execute fresh_creds
                             (Request ''tasklists'' ''delete'' [(''tasklist'', PStr ''a'')])]\<rparr>)"
    by (simp add: delete_tasklist_def run_request_def service_property_def record_event_def
        window_def signed_in_def sample_env_def remote_ok_def)
  have t: "tree (window shopping) = shopping"
    by (simp add: window_def)
  show ?thesis
    using
      delete_is_remote_first [where s = "window shopping" and i = 0 and j = 1
        and env = "sample_env login_ok remote_broken remote_no_items"
        and others = "[]" and pcaption = "''A''" and tasklist_id = "Some ''a''" and pst = None
        and kids = "[TaskTreeItem ''milk'' (Some ''t1'') (Some ''needsAction''),
                     TaskTreeItem ''eggs'' (Some ''t2'') (Some ''needsAction'')]"
        and caption = "''eggs''" and tid = "Some ''t2''" and st = "Some ''needsAction''"
        and res = "Inl (HttpError 500 ''backend error'')"
        and w = "signed_in\<lparr>trace := [Execute fresh_creds
                             (Request ''tasks'' ''delete''
                                [(''tasklist'', PStr ''a''), (''task'', PStr ''t2'')])]\<rparr>"]
      delete_is_remote_first [where s = "window shopping" and n = 0
        and env = "sample_env login_ok remote_ok remote_no_items"
        and others = "[]" and lcaption = "''A''" and list_id = "Some ''a''" and lst = None
        and lres = "Inr ()"
        and lw = "signed_in\<lparr>trace := [Execute fresh_creds
                             (Request ''tasklists'' ''delete'' [(''tasklist'', PStr ''a'')])]\<rparr>"]
      c d l t
    by (simp add: remove_nth_def shopping_def)
qed

section \<open>Moving\<close>

lemma load_tasks_data_any_tree:
  "load_tasks_data env (s\<lparr>tree := t\<rparr>) = load_tasks_data env s"
  by (simp add: load_tasks_data_def split: prod.splits sum.splits)

lemma previous_id_nonempty: "previous_id_of kids j = Some p \<Longrightarrow> p \<noteq> []"
  by (auto simp: previous_id_of_def split: if_splits item.splits)

lemma move_task_request:
  "service_property env w0 = (Inr svc, w1) \<Longrightarrow>
   move_task env tasklist_id tid (previous_id_of kids j) w0 =
     (let req = Request ''tasks'' ''move''
                  ([(''tasklist'', py_str tasklist_id), (''task'', py_str tid)] @
                   (case previous_id_of kids j of
                      None \<Rightarrow> []
                    | Some p \<Rightarrow> [(''previous'', PStr p)]))
      in (execute env (trace w1) svc req, record_event (Execute svc req) w1))"
  by (cases "previous_id_of kids j")
     (auto simp: move_task_def run_request_with_service Let_def dest: previous_id_nonempty)

lemma on_task_dragged_outcome:
  assumes "child_at (tree s) i j = Some (TaskTreeItem pcaption tasklist_id pst, kids)"
    and "kids ! j = TaskTreeItem caption tid st" and "truthy tid"
    and "move_task env tasklist_id tid (previous_id_of kids j) (api s) = (res, w)"
  shows "on_task_dragged env (Child i j) s =
           (case res of
              Inr v \<Rightarrow> s\<lparr>api := w, status_bar := Msg ''Task position updated successfully''\<rparr>
            | Inl e \<Rightarrow>
                load_tasks_data env
                  (s\<lparr>api := w, tree := t,
                     status_bar := MsgExn ''Error updating task position: '' e\<rparr>))"
proof (cases res)
  case (Inl e)
  have "load_tasks_data env (s\<lparr>api := w, status_bar := MsgExn ''Error updating task position: '' e\<rparr>) =
        load_tasks_data env (s\<lparr>api := w, tree := t, status_bar := MsgExn ''Error updating task position: '' e\<rparr>)"
    by (simp add: load_tasks_data_def split: prod.splits sum.splits)
  with Inl assms show ?thesis
    by (simp add: on_task_dragged_def)
next
  case (Inr v)
  with assms show ?thesis
    by (simp add: on_task_dragged_def)
qed

text \<open>
  C4.  \<open>on_task_dragged\<close> for a task with an id, standing at position \<open>j\<close> under its list
  item after the widget has moved it.  The predecessor is \<open>None\<close> at position 0 and the
  id of the task just before it otherwise; the request sent is \<open>tasks.move\<close> with that
  \<open>previous\<close>, and without the parameter when there is none.  When the call succeeds
  the tree is left as the widget arranged it.  When it fails the result is that of
  \<open>load_tasks_data\<close>, which is the same whatever tree \<open>t\<close> it starts from: the local
  order plays no part in it.
\<close>

theorem drag_moves_after_previous_sibling:
  assumes "child_at (tree s) i j = Some (TaskTreeItem pcaption tasklist_id pst, kids)"
    and "kids ! j = TaskTreeItem caption tid st" and "truthy tid"
  shows "(j = 0 \<longrightarrow> previous_id_of kids j = None) \<and>
         (0 < j \<and> kids ! (j - 1) = TaskTreeItem bcaption (Some p) bst \<and> p \<noteq> [] \<longrightarrow>
            previous_id_of kids j = Some p) \<and>
         (service_property env (api s) = (Inr svc, w1) \<longrightarrow>
            move_task env tasklist_id tid (previous_id_of kids j) (api s) =
              (let req = Request ''tasks'' ''move''
                           ([(''tasklist'', py_str tasklist_id), (''task'', py_str tid)] @
                            (case previous_id_of kids j of
                               None \<Rightarrow> []
                             | Some q \<Rightarrow> [(''previous'', PStr q)]))
               in (execute env (trace w1) svc req, record_event (Execute svc req) w1))) \<and>
         (move_task env tasklist_id tid (previous_id_of kids j) (api s) = (res, w) \<longrightarrow>
            on_task_dragged env (Child i j) s =
              (case res of
                 Inr v \<Rightarrow> s\<lparr>api := w, status_bar := Msg ''Task position updated successfully''\<rparr>
               | Inl e \<Rightarrow>
                   load_tasks_data env
                     (s\<lparr>api := w, tree := t,
                        status_bar := MsgExn ''Error updating task position: '' e\<rparr>)))"
proof (intro conjI impI)
  assume "j = 0"
  then show "previous_id_of kids j = None"
    by (simp add: previous_id_of_def)
next
  assume "0 < j \<and> kids ! (j - 1) = TaskTreeItem bcaption (Some p) bst \<and> p \<noteq> []"
  then show "previous_id_of kids j = Some p"
    by (simp add: previous_id_of_def)
next
  assume "service_property env (api s) = (Inr svc, w1)"
  then show "move_task env tasklist_id tid (previous_id_of kids j) (api s) =
              (let req = Request ''tasks'' ''move''
                           ([(''tasklist'', py_str tasklist_id), (''task'', py_str tid)] @
                            (case previous_id_of kids j of
                               None \<Rightarrow> []
                             | Some q \<Rightarrow> [(''previous'', PStr q)]))
               in (execute env (trace w1) svc req, record_event (Execute svc req) w1))"
    by (rule move_task_request)
next
  assume "move_task env tasklist_id tid (previous_id_of kids j) (api s) = (res, w)"
  with assms show "on_task_dragged env (Child i j) s =
              (case res of
                 Inr v \<Rightarrow> s\<lparr>api := w, status_bar := Msg ''Task position updated successfully''\<rparr>
               | Inl e \<Rightarrow>
                   load_tasks_data env
                     (s\<lparr>api := w, tree := t,
                        status_bar := MsgExn ''Error updating task position: '' e\<rparr>))"
    by (rule on_task_dragged_outcome)
qed

theorem drag_moves_after_previous_sibling_witness:
  "child_at (tree (window reordered)) 0 1 =
     Some (TaskTreeItem ''A'' (Some ''a'') None,
           [TaskTreeItem ''eggs'' (Some ''t2'') (Some ''needsAction''),
            TaskTreeItem ''milk'' (Some ''t1'') (Some ''needsAction'')]) \<and>
   truthy (Some ''t1'') \<and>
   service_property (sample_env login_ok remote_broken two_lists) (api (window reordered)) =
     (Inr fresh_creds, signed_in) \<and>
   move_task (sample_env login_ok remote_broken two_lists) (Some ''a'') (Some ''t1'')
     (Some ''t2'') (api (window reordered)) =
     (Inl (HttpError 500 ''backend error''),
      signed_in\<lparr>trace := [Execute fresh_creds
                             (Request ''tasks'' ''move''
                                [(''tasklist'', PStr ''a''), (''task'', PStr ''t1''),
                                 (''previous'', PStr ''t2'')])]\<rparr>) \<and>
   tree (on_task_dragged (sample_env login_ok remote_broken two_lists) (Child 0 1)
           (window reordered)) =
     tree (load_tasks_data (sample_env login_ok remote_broken two_lists)
             (window []\<lparr>api := signed_in\<lparr>trace := [Execute fresh_creds
                             (Request ''tasks'' ''move''
                                [(''tasklist'', PStr ''a''), (''task'', PStr ''t1''),
                                 (''previous'', PStr ''t2'')])]\<rparr>\<rparr>)) \<and>
   tree (on_task_dragged (sample_env login_ok remote_broken two_lists) (Child 0 1)
           (window reordered)) =
     [(TaskTreeItem ''A'' (Some ''a'') None,
       [TaskTreeItem ''milk'' (Some ''t1'') (Some ''needsAction'')]),
      (TaskTreeItem ''B'' (Some ''b'') None,
       [QTreeWidgetItem (MsgExn '' Error loading tasks: '' (Exception ''timeout''))])] \<and>
   move_task (sample_env login_ok remote_ok two_lists) (Some ''a'') (Some ''t2'') None
     (api (window reordered)) =
     (Inr [],
      signed_in\<lparr>trace := [Execute fresh_creds
                             (Request ''tasks'' ''move''
                                [(''tasklist'', PStr ''a''), (''task'', PStr ''t2'')])]\<rparr>) \<and>
   tree (on_task_dragged (sample_env login_ok remote_ok two_lists) (Child 0 0)
           (window reordered)) = reordered"
proof -
  have c0: "child_at (tree (window reordered)) 0 0 =
     Some (TaskTreeItem ''A'' (Some ''a'') None,
           [TaskTreeItem ''eggs'' (Some ''t2'') (Some ''needsAction''),
            TaskTreeItem ''milk'' (Some ''t1'') (Some ''needsAction'')])"
    by (simp add: child_at_def window_def reordered_def)
  have k0: "[TaskTreeItem ''eggs'' (Some ''t2'') (Some ''needsAction''),
             TaskTreeItem ''milk'' (Some ''t1'') (Some ''needsAction'')] ! 0 =
            TaskTreeItem ''eggs'' (Some ''t2'') (Some ''needsAction'')"
    by simp
  have t0: "truthy (Some ''t2'')"
    by simp
  have m0: "move_task (sample_env login_ok remote_ok two_lists) (Some ''a'') (Some ''t2'') None
     (api (window reordered)) =
     (Inr [],
      signed_in\<lparr>trace := [Execute fresh_creds
                             (Request ''tasks'' ''move''
                                [(''tasklist'', PStr ''a''), (''task'', PStr ''t2'')])]\<rparr>)"
    by (simp add: move_task_def run_request_def service_property_def record_event_def
        window_def signed_in_def sample_env_def remote_ok_def)
  note first = drag_moves_after_previous_sibling [OF c0 k0 t0,
        where env = "sample_env login_ok remote_ok two_lists" and res = "Inr []"
          and w = "signed_in\<lparr>trace := [Execute fresh_creds
                             (Request ''tasks'' ''move''
                                [(''tasklist'', PStr ''a''), (''task'', PStr ''t2'')])]\<rparr>"]
  from first have p0: "previous_id_of
      [TaskTreeItem ''eggs'' (Some ''t2'') (Some ''needsAction''),
       TaskTreeItem ''milk'' (Some ''t1'') (Some ''needsAction'')] 0 = None"
    by blast
  from first m0 p0
  have d0: "tree (on_task_dragged (sample_env login_ok remote_ok two_lists) (Child 0 0)
           (window reordered)) = reordered"
    by (simp add: window_def)
  define kids where "kids = [TaskTreeItem ''eggs'' (Some ''t2'') (Some ''needsAction''),
            TaskTreeItem ''milk'' (Some ''t1'') (Some ''needsAction'')]"
  define w where "w = signed_in\<lparr>trace := [Execute fresh_creds
                             (Request ''tasks'' ''move''
                                [(''tasklist'', PStr ''a''), (''task'', PStr ''t1''),
                                 (''previous'', PStr ''t2'')])]\<rparr>"
  have c: "child_at (tree (window reordered)) 0 1 = Some (TaskTreeItem ''A'' (Some ''a'') None, kids)"
    by (simp add: child_at_def window_def reordered_def kids_def)
  have k: "kids ! 1 = TaskTreeItem ''milk'' (Some ''t1'') (Some ''needsAction'')"
    by (simp add: kids_def)
  have t: "truthy (Some ''t1'')"
    by simp
  have p: "previous_id_of kids 1 = Some ''t2''"
    by (simp add: previous_id_of_def kids_def)
  have sp: "service_property (sample_env login_ok remote_broken two_lists) (api (window reordered)) =
     (Inr fresh_creds, signed_in)"
    by (simp add: service_property_def window_def signed_in_def)
  have m: "move_task (sample_env login_ok remote_broken two_lists) (Some ''a'') (Some ''t1'')
     (Some ''t2'') (api (window reordered)) = (Inl (HttpError 500 ''backend error''), w)"
    by (simp add: move_task_def run_request_def service_property_def record_event_def
        window_def signed_in_def sample_env_def remote_broken_def w_def)
  have l: "tree (load_tasks_data (sample_env login_ok remote_broken two_lists)
             (window []\<lparr>api := w\<rparr>)) =
     [(TaskTreeItem ''A'' (Some ''a'') None,
       [TaskTreeItem ''milk'' (Some ''t1'') (Some ''needsAction'')]),
      (TaskTreeItem ''B'' (Some ''b'') None,
       [QTreeWidgetItem (MsgExn '' Error loading tasks: '' (Exception ''timeout''))])]"
    by (simp add: load_tasks_data_def get_task_lists_def get_tasks_def run_list_request_def
        service_property_def record_event_def window_def signed_in_def sample_env_def
        two_lists_def w_def MAX_RESULTS_def dict_item_def task_children_def fetch_error_def
        create_task_items_def style_task_item_def error_item_def)
  have d: "on_task_dragged (sample_env login_ok remote_broken two_lists) (Child 0 1)
           (window reordered) =
        load_tasks_data (sample_env login_ok remote_broken two_lists)
          ((window reordered)\<lparr>api := w, tree := [],
             status_bar := MsgExn ''Error updating task position: '' (HttpError 500 ''backend error'')\<rparr>)"
    using drag_moves_after_previous_sibling [OF c k t,
        where env = "sample_env login_ok remote_broken two_lists"
          and res = "Inl (HttpError 500 ''backend error'')" and w = w and t = "[]"] m p
    by simp
  have same: "load_tasks_data (sample_env login_ok remote_broken two_lists)
          ((window reordered)\<lparr>api := w, tree := [],
             status_bar := MsgExn ''Error updating task position: '' (HttpError 500 ''backend error'')\<rparr>) =
        (load_tasks_data (sample_env login_ok remote_broken two_lists) (window []\<lparr>api := w\<rparr>))"
    by (simp add: load_tasks_data_def window_def split: prod.splits sum.splits)
  show ?thesis
    unfolding w_def [symmetric] kids_def [symmetric]
    using c t sp m d same l m0 d0 by simp
qed

section \<open>Toggling\<close>

lemma map_of_dict_set:
  "map_of (dict_set k v d) k' = (if k' = k then Some v else map_of d k')"
  by (induction d) auto

lemma toggle_succeeded:
  assumes "child_at (tree s) i j = Some (TaskTreeItem pcaption tasklist_id pst, kids)"
    and "kids ! j = TaskTreeItem caption (Some t) st"
    and "fetch_and_update env tasklist_id (Some t) (api s) = (Inr new_status, w)"
  shows "toggle_task_status env (Child i j) s =
           (None,
            s\<lparr>api := w, tree := set_child (tree s) i j (show_status (kids ! j) new_status),
              status_bar := Msg (''Task marked as '' @ new_status)\<rparr>)"
  using assms by (simp add: toggle_task_status_def)

lemma status_show_status:
  "status (show_status (TaskTreeItem caption tid st) new_status) = Some new_status"
  by (simp add: show_status_def)

text \<open>
  C5.  A failure that is not reported.  The window shows the list \<open>shopping\<close> and its first
  task is toggled; \<open>get_task\<close> fails with an \<open>HttpError\<close> whose body is the byte \<open>0xFF\<close>.
  With status 500, \<open>UnicodeDecodeError\<close> leaves \<open>toggle_task_status\<close>: the tree is as it
  was, but the status bar still shows what it showed before, so the failure is not
  reported.  With status 403 the same happens, and the only call made is the \<open>get\<close>: the
  credentials are not refreshed and nothing is tried again.  The same failure with a body
  that is UTF-8 text is reported in the status bar.
\<close>

theorem undecodable_error_not_reported:
  "toggle_task_status (sample_env login_ok (remote_garbled 500) remote_no_items) (Child 0 0)
     (window shopping) =
     (Some (UnicodeDecodeError [CHR 0xFF]),
      (window shopping)
        \<lparr>api := signed_in\<lparr>trace := [Execute fresh_creds
                                      (Request ''tasks'' ''get''
                                         [(''tasklist'', PStr ''a''), (''task'', PStr ''t1'')])]\<rparr>\<rparr>) \<and>
   status_bar (snd (toggle_task_status (sample_env login_ok (remote_garbled 500) remote_no_items)
                      (Child 0 0) (window shopping))) = status_bar (window shopping) \<and>
   tree (snd (toggle_task_status (sample_env login_ok (remote_garbled 500) remote_no_items)
                (Child 0 0) (window shopping))) = shopping \<and>
   toggle_task_status (sample_env login_ok (remote_garbled 403) remote_no_items) (Child 0 0)
     (window shopping) =
     (Some (UnicodeDecodeError [CHR 0xFF]),
      (window shopping)
        \<lparr>api := signed_in\<lparr>trace := [Execute fresh_creds
                                      (Request ''tasks'' ''get''
                                         [(''tasklist'', PStr ''a''), (''task'', PStr ''t1'')])]\<rparr>\<rparr>) \<and>
   toggle_task_status (sample_env login_ok remote_broken remote_no_items) (Child 0 0)
     (window shopping) =
     (None,
      (window shopping)
        \<lparr>api := signed_in\<lparr>trace := [Execute fresh_creds
                                      (Request ''tasks'' ''get''
                                         [(''tasklist'', PStr ''a''), (''task'', PStr ''t1'')])]\<rparr>,
          status_bar := MsgExn ''API error: '' (HttpError 500 ''backend error'')\<rparr>)"
  by (simp add: toggle_task_status_def child_at_def window_def shopping_def fetch_and_update_def
      get_task_def run_request_def service_property_def record_event_def signed_in_def
      sample_env_def remote_garbled_def remote_broken_def byte_in_def)

lemma dict_set_restore:
  "map_of d k = Some v0 \<Longrightarrow> dict_set k v0 (dict_set k v d) = d"
  by (induction d) (auto split: if_splits)

lemma child_at_set_child:
  "child_at t i j = Some (p, kids) \<Longrightarrow>
   child_at (set_child t i j it) i j = Some (p, kids[j := it])"
  by (auto simp: child_at_def set_child_def split: if_splits)

lemma flip_status_twice:
  "map_of task ''status'' = Some v0 \<Longrightarrow> v0 = ''needsAction'' \<or> v0 = ''completed'' \<Longrightarrow>
   flip_status task \<noteq> v0 \<and>
   flip_status (dict_set ''status'' (flip_status task) task) = v0"
  by (auto simp: flip_status_def map_of_dict_set)

text \<open>
  C8.  A task whose item shows the status the service holds, \<open>needsAction\<close> or
  \<open>completed\<close>, is toggled twice; both updates succeed and the second fetch returns the
  record the first toggle sent.  The first toggle sets the item to the other status, the
  second sets it back, and the record sent by the second update is the record first
  fetched: neither toggle skips its flip, and neither raises.
\<close>

theorem toggle_twice_restores_status:
  assumes c: "child_at (tree s) i j = Some (TaskTreeItem pcaption tasklist_id pst, kids)"
    and k: "kids ! j = TaskTreeItem caption (Some t) (Some v0)"
    and v: "v0 = ''needsAction'' \<or> v0 = ''completed''"
    and g1: "get_task env tasklist_id (Some t) (api s) = (Inr task, w1)"
    and sync: "map_of task ''status'' = Some v0"
    and u1: "update_task env tasklist_id (Some t)
               (dict_set ''status'' (flip_status task) task) w1 = (Inr r1, w2)"
    and g2: "get_task env tasklist_id (Some t) w2 =
               (Inr (dict_set ''status'' (flip_status task) task), w3)"
    and u2: "update_task env tasklist_id (Some t) task w3 = (Inr r2, w4)"
  shows "(let s1 = snd (toggle_task_status env (Child i j) s);
              s2 = snd (toggle_task_status env (Child i j) s1)
          in status (snd (tree s1 ! i) ! j) = Some (flip_status task) \<and>
             flip_status task \<noteq> v0 \<and>
             api s1 = w2 \<and>
             status (snd (tree s2 ! i) ! j) = Some v0 \<and>
             api s2 = w4 \<and>
             dict_set ''status''
               (flip_status (dict_set ''status'' (flip_status task) task))
               (dict_set ''status'' (flip_status task) task) = task \<and>
             fst (toggle_task_status env (Child i j) s) = None \<and>
             fst (toggle_task_status env (Child i j) s1) = None)"
proof -
  define sent where "sent = dict_set ''status'' (flip_status task) task"
  define s1 where "s1 = snd (toggle_task_status env (Child i j) s)"
  define s2 where "s2 = snd (toggle_task_status env (Child i j) s1)"
  from flip_status_twice [OF sync v]
  have ne: "flip_status task \<noteq> v0" and fb: "flip_status sent = v0"
    by (simp_all add: sent_def)
  have restored: "dict_set ''status'' (flip_status sent) sent = task"
    using fb dict_set_restore [OF sync, of "flip_status task"] by (simp add: sent_def)
  from c have i: "i < length (tree s)" and j: "j < length kids" and ti: "tree s ! i = (TaskTreeItem pcaption tasklist_id pst, kids)"
    by (auto simp: child_at_def split: if_splits)
  have f1: "fetch_and_update env tasklist_id (Some t) (api s) = (Inr (flip_status task), w2)"
    using g1 u1 by (simp add: fetch_and_update_def)
  note r1 = toggle_succeeded [OF c k f1]
  have x1: "fst (toggle_task_status env (Child i j) s) = None"
    by (simp add: r1)
  have e1: "s1 = s\<lparr>api := w2,
                tree := set_child (tree s) i j (show_status (kids ! j) (flip_status task)),
                status_bar := Msg (''Task marked as '' @ flip_status task)\<rparr>"
    unfolding s1_def by (simp add: r1)
  have a1: "api s1 = w2" by (simp add: e1)
  have c1: "child_at (tree s1) i j =
              Some (TaskTreeItem pcaption tasklist_id pst,
                    kids[j := show_status (kids ! j) (flip_status task)])"
    unfolding e1 using child_at_set_child [OF c] by simp
  define it1 where "it1 = show_status (kids ! j) (flip_status task)"
  have i1: "it1 = TaskTreeItem (item_text it1) (Some t) (Some (flip_status task))"
    by (simp add: it1_def k show_status_def)
  have k1: "kids[j := it1] ! j = TaskTreeItem (item_text it1) (Some t) (Some (flip_status task))"
    using j i1 by simp
  have t1: "tree s1 ! i = (TaskTreeItem pcaption tasklist_id pst, kids[j := it1])"
    using c1 by (auto simp: child_at_def it1_def split: if_splits)
  have st1: "status (snd (tree s1 ! i) ! j) = Some (flip_status task)"
    unfolding t1 using k1 by simp
  have c1': "child_at (tree s1) i j = Some (TaskTreeItem pcaption tasklist_id pst, kids[j := it1])"
    using c1 by (simp add: it1_def)
  have f2: "fetch_and_update env tasklist_id (Some t) (api s1) = (Inr v0, w4)"
    using g2 u2 restored fb by (simp add: fetch_and_update_def a1 sent_def)
  note r2 = toggle_succeeded [OF c1' k1 f2]
  have x2: "fst (toggle_task_status env (Child i j) s1) = None"
    by (simp add: r2)
  have e2: "s2 = s1\<lparr>api := w4,
                tree := set_child (tree s1) i j (show_status (kids[j := it1] ! j) v0),
                status_bar := Msg (''Task marked as '' @ v0)\<rparr>"
    unfolding s2_def by (simp add: r2)
  have a2: "api s2 = w4" by (simp add: e2)
  define it2 where "it2 = show_status (kids[j := it1] ! j) v0"
  have i2: "status it2 = Some v0"
    unfolding it2_def k1 by (rule status_show_status)
  have c2: "child_at (tree s2) i j =
              Some (TaskTreeItem pcaption tasklist_id pst, (kids[j := it1])[j := it2])"
    unfolding e2 it2_def using child_at_set_child [OF c1'] by simp
  have t2: "tree s2 ! i = (TaskTreeItem pcaption tasklist_id pst, (kids[j := it1])[j := it2])"
    using c2 by (auto simp: child_at_def split: if_splits)
  have st2: "status (snd (tree s2 ! i) ! j) = Some v0"
    unfolding t2 using j i2 by simp
  show ?thesis
    unfolding Let_def s1_def [symmetric] s2_def [symmetric] sent_def [symmetric]
    using st1 ne a1 st2 a2 restored x1 x2 by simp
qed

text \<open>
  On the sample service holding \<open>milk\<close>: the first toggle completes the task, the second
  opens it again, and neither raises.
\<close>

theorem toggle_twice_restores_status_witness:
  "child_at (tree (window shopping)) 0 0 =
     Some (TaskTreeItem ''A'' (Some ''a'') None,
           [TaskTreeItem ''milk'' (Some ''t1'') (Some ''needsAction''),
            TaskTreeItem ''eggs'' (Some ''t2'') (Some ''needsAction'')]) \<and>
   map_of milk ''status'' = Some ''needsAction'' \<and>
   fst (get_task (sample_env login_ok remote_task remote_no_items) (Some ''a'') (Some ''t1'')
          (api (window shopping))) = Inr milk \<and>
   fst (get_task (sample_env login_ok remote_task remote_no_items) (Some ''a'') (Some ''t1'')
          (api (snd (toggle_task_status (sample_env login_ok remote_task remote_no_items)
                       (Child 0 0) (window shopping))))) =
     Inr (dict_set ''status'' (flip_status milk) milk) \<and>
   status (snd (tree (snd (toggle_task_status (sample_env login_ok remote_task remote_no_items)
                             (Child 0 0) (window shopping))) ! 0) ! 0) = Some ''completed'' \<and>
   status (snd (tree (snd (toggle_task_status (sample_env login_ok remote_task remote_no_items)
                        (Child 0 0)
                        (snd (toggle_task_status (sample_env login_ok remote_task remote_no_items)
                                (Child 0 0) (window shopping))))) ! 0) ! 0) = Some ''needsAction'' \<and>
   fst (toggle_task_status (sample_env login_ok remote_task remote_no_items)
          (Child 0 0) (window shopping)) = None \<and>
   fst (toggle_task_status (sample_env login_ok remote_task remote_no_items) (Child 0 0)
          (snd (toggle_task_status (sample_env login_ok remote_task remote_no_items)
                  (Child 0 0) (window shopping)))) = None"
proof -
  define E where "E = sample_env login_ok remote_task remote_no_items"
  define kids where "kids = [TaskTreeItem ''milk'' (Some ''t1'') (Some ''needsAction''),
            TaskTreeItem ''eggs'' (Some ''t2'') (Some ''needsAction'')]"
  define get where "get = Execute fresh_creds
                             (Request ''tasks'' ''get''
                                [(''tasklist'', PStr ''a''), (''task'', PStr ''t1'')])"
  define put where "put = (\<lambda>b. Execute fresh_creds
                             (Request ''tasks'' ''update''
                                [(''tasklist'', PStr ''a''), (''task'', PStr ''t1''),
                                 (''body'', PBody b)]))"
  define sent where "sent = dict_set ''status'' (flip_status milk) milk"
  define w1 where "w1 = signed_in\<lparr>trace := [get]\<rparr>"
  define w2 where "w2 = signed_in\<lparr>trace := [get, put sent]\<rparr>"
  define w3 where "w3 = signed_in\<lparr>trace := [get, put sent, get]\<rparr>"
  define w4 where "w4 = signed_in\<lparr>trace := [get, put sent, get, put milk]\<rparr>"
  have sent: "sent =
     [(''id'', ''t1''), (''title'', ''milk''), (''status'', ''completed''), (''notes'', ''2 l'')]"
    by (simp add: sent_def flip_status_def milk_def)
  have c: "child_at (tree (window shopping)) 0 0 = Some (TaskTreeItem ''A'' (Some ''a'') None, kids)"
    by (simp add: child_at_def window_def shopping_def kids_def)
  have k: "kids ! 0 = TaskTreeItem ''milk'' (Some ''t1'') (Some ''needsAction'')"
    by (simp add: kids_def)
  have v: "''needsAction'' = ''needsAction'' \<or> ''needsAction'' = ''completed''"
    by simp
  have sync: "map_of milk ''status'' = Some ''needsAction''"
    by (simp add: milk_def)
  have g1: "get_task E (Some ''a'') (Some ''t1'') (api (window shopping)) = (Inr milk, w1)"
    by (simp add: get_task_def run_request_def service_property_def record_event_def
        window_def signed_in_def E_def sample_env_def remote_task_def w1_def get_def)
  have u1: "update_task E (Some ''a'') (Some ''t1'')
              (dict_set ''status'' (flip_status milk) milk) w1 = (Inr sent, w2)"
    unfolding sent_def [symmetric]
    by (simp add: update_task_def run_request_def service_property_def record_event_def
        signed_in_def E_def sample_env_def remote_task_def w1_def w2_def put_def)
  have g2: "get_task E (Some ''a'') (Some ''t1'') w2 =
              (Inr (dict_set ''status'' (flip_status milk) milk), w3)"
    unfolding sent_def [symmetric]
    by (simp add: get_task_def run_request_def service_property_def record_event_def
        signed_in_def E_def sample_env_def remote_task_def w2_def w3_def get_def put_def)
  have u2: "update_task E (Some ''a'') (Some ''t1'') milk w3 = (Inr milk, w4)"
    by (simp add: update_task_def run_request_def service_property_def record_event_def
        signed_in_def E_def sample_env_def remote_task_def w3_def w4_def put_def)
  have f: "flip_status milk = ''completed''"
    by (simp add: flip_status_def milk_def)
  note T = toggle_twice_restores_status [OF c k v g1 sync u1 g2 u2, unfolded Let_def f]
  from T have a1: "api (snd (toggle_task_status E (Child 0 0) (window shopping))) = w2"
    by simp
  show ?thesis
    unfolding E_def [symmetric] kids_def [symmetric]
    using c sync g1 g2 T a1 by (simp add: f)
qed

section \<open>Listing\<close>

lemma run_list_request_with_service:
  "service_property env w = (Inr svc, w1) \<Longrightarrow>
   run_list_request env req w =
     (case execute_list env (trace w1) svc req of
        Inl e \<Rightarrow> Inl e
      | Inr None \<Rightarrow> Inr []
      | Inr (Some items) \<Rightarrow> Inr items,
      record_event (Execute svc req) w1)"
  by (simp add: run_list_request_def split: sum.splits option.splits)

text \<open>
  C10.  With the service at hand, \<open>get_task_lists\<close> sends \<open>tasklists.list\<close> with
  \<open>maxResults = 10\<close> and returns the items of the answer as they are.  So with a service
  that honours \<open>maxResults\<close> it returns the first ten task lists of the account, and a load
  of an account with more than ten shows exactly those ten and ends with the message of
  success, no dialog shown.  \<open>get_tasks\<close> sends \<open>tasks.list\<close> with the list's id,
  \<open>showCompleted\<close> and \<open>showHidden\<close> and no \<open>maxResults\<close>, and returns the items as
  they are.
\<close>

theorem task_lists_capped_at_ten:
  assumes sp: "service_property env (api s) = (Inr svc, w1)"
  shows "get_task_lists env (api s) =
           (case execute_list env (trace w1) svc
                   (Request ''tasklists'' ''list'' [(''maxResults'', PInt 10)]) of
              Inl e \<Rightarrow> Inl e
            | Inr None \<Rightarrow> Inr []
            | Inr (Some items) \<Rightarrow> Inr items,
            record_event (Execute svc (Request ''tasklists'' ''list'' [(''maxResults'', PInt 10)])) w1) \<and>
         (honours_max_results env account \<longrightarrow>
            fst (get_task_lists env (api s)) = Inr (take 10 account) \<and>
            length (take 10 account) \<le> 10) \<and>
         (honours_max_results env account \<and> list_all well_formed account \<and>
          10 < length account \<longrightarrow>
            map fst (tree (load_tasks_data env s)) = map list_item_of (take 10 account) \<and>
            length (tree (load_tasks_data env s)) = 10 \<and>
            status_bar (load_tasks_data env s) = Msg ''Tasks loaded successfully'' \<and>
            error_messages (load_tasks_data env s) = error_messages s) \<and>
         get_tasks env tasklist_id (api s) =
           (case execute_list env (trace w1) svc
                   (Request ''tasks'' ''list''
                      [(''tasklist'', py_str tasklist_id), (''showCompleted'', PBool True),
                       (''showHidden'', PBool True)]) of
              Inl e \<Rightarrow> Inl e
            | Inr None \<Rightarrow> Inr []
            | Inr (Some items) \<Rightarrow> Inr items,
            record_event
              (Execute svc
                 (Request ''tasks'' ''list''
                    [(''tasklist'', py_str tasklist_id), (''showCompleted'', PBool True),
                     (''showHidden'', PBool True)])) w1)"
proof -
  let ?req = "Request ''tasklists'' ''list'' [(''maxResults'', PInt 10)]"
  have g: "get_task_lists env (api s) =
           (case execute_list env (trace w1) svc ?req of
              Inl e \<Rightarrow> Inl e
            | Inr None \<Rightarrow> Inr []
            | Inr (Some items) \<Rightarrow> Inr items,
            record_event (Execute svc ?req) w1)"
    unfolding get_task_lists_def MAX_RESULTS_def by (rule run_list_request_with_service [OF sp])
  have t: "get_tasks env tasklist_id (api s) =
           (case execute_list env (trace w1) svc
                   (Request ''tasks'' ''list''
                      [(''tasklist'', py_str tasklist_id), (''showCompleted'', PBool True),
                       (''showHidden'', PBool True)]) of
              Inl e \<Rightarrow> Inl e
            | Inr None \<Rightarrow> Inr []
            | Inr (Some items) \<Rightarrow> Inr items,
            record_event
              (Execute svc
                 (Request ''tasks'' ''list''
                    [(''tasklist'', py_str tasklist_id), (''showCompleted'', PBool True),
                     (''showHidden'', PBool True)])) w1)"
    unfolding get_tasks_def by (rule run_list_request_with_service [OF sp])
  have h: "fst (get_task_lists env (api s)) = Inr (take 10 account)"
    if "honours_max_results env account"
    using that by (simp add: g honours_max_results_def)
  have l: "map fst (tree (load_tasks_data env s)) = map list_item_of (take 10 account) \<and>
            length (tree (load_tasks_data env s)) = 10 \<and>
            status_bar (load_tasks_data env s) = Msg ''Tasks loaded successfully'' \<and>
            error_messages (load_tasks_data env s) = error_messages s"
    if a: "honours_max_results env account \<and> list_all well_formed account \<and> 10 < length account"
  proof -
    from a have hon: "honours_max_results env account" and wf: "list_all well_formed account"
      and len: "10 < length account" by simp_all
    define w2 where "w2 = record_event (Execute svc ?req) w1"
    from hon have gl: "get_task_lists env (api s) = (Inr (take 10 account), w2)"
      by (simp add: g honours_max_results_def w2_def)
    from len have ne: "take 10 account \<noteq> []" by auto
    from wf have wf10: "list_all well_formed (take 10 account)"
      by (simp add: list_all_iff) (meson in_set_takeD)
    note L = load_tasks_data_loaded [OF gl ne wf10]
    have lf: "length (fetch_outcomes env (take 10 account) w2) = length (take 10 account)"
      by (rule length_fetch_outcomes)
    from L have tr: "tree (load_tasks_data env s) =
           map2 (\<lambda>d r. (list_item_of d, task_children r)) (take 10 account)
             (fetch_outcomes env (take 10 account) w2)" by simp
    have m: "map fst (tree (load_tasks_data env s)) = map list_item_of (take 10 account)"
      unfolding tr using lf [symmetric] by (rule map_fst_map2)
    from m have "length (tree (load_tasks_data env s)) = length (take 10 account)"
      by (metis length_map)
    with len have n: "length (tree (load_tasks_data env s)) = 10" by simp
    from m n L show ?thesis by simp
  qed
  from g t h l show ?thesis by simp
qed


theorem task_lists_capped_at_ten_witness:
  "service_property (sample_env login_ok remote_ok paged_lists) (api (window [])) =
     (Inr fresh_creds, signed_in) \<and>
   honours_max_results (sample_env login_ok remote_ok paged_lists) eleven_lists \<and>
   list_all well_formed eleven_lists \<and>
   length eleven_lists = 11 \<and>
   fst (get_task_lists (sample_env login_ok remote_ok paged_lists) (api (window []))) =
     Inr (take 10 eleven_lists) \<and>
   length (tree (load_tasks_data (sample_env login_ok remote_ok paged_lists) (window []))) = 10 \<and>
   status_bar (load_tasks_data (sample_env login_ok remote_ok paged_lists) (window [])) =
     Msg ''Tasks loaded successfully''"
proof -
  have sp: "service_property (sample_env login_ok remote_ok paged_lists) (api (window [])) =
     (Inr fresh_creds, signed_in)"
    by (simp add: service_property_def window_def signed_in_def)
  have hon: "honours_max_results (sample_env login_ok remote_ok paged_lists) eleven_lists"
    by (simp add: honours_max_results_def sample_env_def paged_lists_def)
  have wf: "list_all well_formed eleven_lists"
    by (simp add: eleven_lists_def well_formed_def list_all_iff)
  have len: "length eleven_lists = 11"
    by (simp add: eleven_lists_def)
  show ?thesis
  proof -
    have more: "10 < length eleven_lists"
      using len by simp
    note T = task_lists_capped_at_ten [OF sp, where account = eleven_lists and tasklist_id = None]
    from T hon have a: "fst (get_task_lists (sample_env login_ok remote_ok paged_lists)
                               (api (window []))) = Inr (take 10 eleven_lists)"
      by blast
    from T hon wf more
    have b: "length (tree (load_tasks_data (sample_env login_ok remote_ok paged_lists)
                             (window []))) = 10"
      and c: "status_bar (load_tasks_data (sample_env login_ok remote_ok paged_lists) (window [])) =
                Msg ''Tasks loaded successfully''"
      by blast+
    from sp hon wf len a b c show ?thesis
      by blast
  qed
qed

end
